theory Spec2Isabelle
  imports Complex_Main
begin

section \<open>Single-precision arithmetic\<close>

text \<open>
  Every number of \<^verbatim>\<open>cfd.c\<close> is a C \<^verbatim>\<open>float\<close>. The model is IEEE 754 binary32 with
  round to nearest, ties to even, every operation rounded once. A finite number
  \<open>Finite s m e\<close> has the sign \<open>s\<close> (\<open>True\<close> is negative), the significand \<open>m\<close> and
  the exponent \<open>e\<close> of its last bit: its value is \<open>(-1)^s * m * 2^e\<close>. The operations
  produce \<open>0 \<le> m < 2^24\<close> and \<open>-149 \<le> e \<le> 104\<close>, with \<open>e = -149\<close> when \<open>m < 2^23\<close>
  (zero and the subnormal numbers).
\<close>

datatype float = Finite bool int int | Infinity bool | NaN

definition pow2 :: "int \<Rightarrow> real" where
  "pow2 e = (if 0 \<le> e then 2 ^ nat e else 1 / 2 ^ nat (- e))"

fun valof :: "float \<Rightarrow> real" where
  "valof (Finite s m e) = (if s then - 1 else 1) * of_int m * pow2 e"
| "valof (Infinity s) = 0"
| "valof NaN = 0"

definition rne :: "real \<Rightarrow> int" where
  \<comment> \<open>the nearest integer, the even one of two that are equally near\<close>
  "rne x = (if x - of_int \<lfloor>x\<rfloor> < 1 / 2 then \<lfloor>x\<rfloor>
            else if 1 / 2 < x - of_int \<lfloor>x\<rfloor> then \<lfloor>x\<rfloor> + 1
            else if even \<lfloor>x\<rfloor> then \<lfloor>x\<rfloor> else \<lfloor>x\<rfloor> + 1)"

function ilog2 :: "real \<Rightarrow> int" where
  \<comment> \<open>\<open>\<lfloor>log\<^sub>2 a\<rfloor>\<close> of a positive number\<close>
  "ilog2 a = (if a \<le> 0 then 0
              else if 2 \<le> a then ilog2 (a / 2) + 1
              else if a < 1 then ilog2 (a * 2) - 1
              else 0)"
  by pat_completeness auto
termination
proof (relation "measure (\<lambda>a. if 1 \<le> a then nat \<lfloor>a\<rfloor> else nat \<lceil>1 / a\<rceil>)", goal_cases)
  case 1
  show ?case by simp
next
  case (2 a)
  then have "\<lfloor>a / 2\<rfloor> < \<lfloor>a\<rfloor>" by (simp add: floor_less_iff) linarith
  moreover from 2 have "0 < \<lfloor>a\<rfloor>" by simp
  ultimately show ?case using 2 by simp
next
  case (3 a)
  then have a: "0 < a" "a < 1" by simp_all
  then have inv: "1 < 1 / a" by simp
  show ?case
  proof (cases "1 \<le> a * 2")
    case True
    then have "\<lfloor>a * 2\<rfloor> = 1" using a by (simp add: floor_eq_iff)
    moreover have "1 < \<lceil>1 / a\<rceil>" using inv by (simp add: less_ceiling_iff)
    ultimately show ?thesis using a True by simp
  next
    case False
    then have "2 < 1 / a" using a by (simp add: field_simps)
    then have "1 / (a * 2) + 1 \<le> 1 / a" by (simp add: field_simps)
    then have "\<lceil>1 / (a * 2)\<rceil> + 1 \<le> \<lceil>1 / a\<rceil>"
      by (metis ceiling_add_one ceiling_mono)
    moreover have "0 < \<lceil>1 / (a * 2)\<rceil>" using a by (simp add: field_simps)
    ultimately show ?thesis using a False by simp
  qed
qed

declare ilog2.simps [simp del]

definition round_float :: "bool \<Rightarrow> real \<Rightarrow> float" where
  \<comment> \<open>rounding of an exact result; \<open>zs\<close> is the sign of an exact zero\<close>
  "round_float zs x =
     (if x = 0 then Finite zs 0 (- 149)
      else let s = (x < 0); a = \<bar>x\<bar>;
               e = max (- 149) (ilog2 a - 23);
               m = rne (a / pow2 e)
           in if m = 2 ^ 24 then (if 104 < e + 1 then Infinity s else Finite s (2 ^ 23) (e + 1))
              else if 104 < e then Infinity s
              else Finite s m e)"

definition flit :: "real \<Rightarrow> float" where
  \<comment> \<open>a literal such as \<^verbatim>\<open>0.80f\<close>\<close>
  "flit x = round_float False x"

definition float_of_int :: "int \<Rightarrow> float" where
  \<comment> \<open>the conversion \<^verbatim>\<open>(float)c\<close>\<close>
  "float_of_int i = round_float False (of_int i)"

fun fneg :: "float \<Rightarrow> float" where
  "fneg (Finite s m e) = Finite (\<not> s) m e"
| "fneg (Infinity s) = Infinity (\<not> s)"
| "fneg NaN = NaN"

fun fadd :: "float \<Rightarrow> float \<Rightarrow> float" where
  "fadd NaN y = NaN"
| "fadd x NaN = NaN"
| "fadd (Infinity s) (Infinity t) = (if s = t then Infinity s else NaN)"
| "fadd (Infinity s) (Finite t n f) = Infinity s"
| "fadd (Finite s m e) (Infinity t) = Infinity t"
| "fadd (Finite s m e) (Finite t n f) =
     round_float (s \<and> t) (valof (Finite s m e) + valof (Finite t n f))"

definition fsub :: "float \<Rightarrow> float \<Rightarrow> float" where
  "fsub x y = fadd x (fneg y)"

fun fmul :: "float \<Rightarrow> float \<Rightarrow> float" where
  "fmul NaN y = NaN"
| "fmul x NaN = NaN"
| "fmul (Infinity s) (Infinity t) = Infinity (s \<noteq> t)"
| "fmul (Infinity s) (Finite t n f) = (if n = 0 then NaN else Infinity (s \<noteq> t))"
| "fmul (Finite s m e) (Infinity t) = (if m = 0 then NaN else Infinity (s \<noteq> t))"
| "fmul (Finite s m e) (Finite t n f) =
     round_float (s \<noteq> t) (valof (Finite s m e) * valof (Finite t n f))"

fun fdiv :: "float \<Rightarrow> float \<Rightarrow> float" where
  "fdiv NaN y = NaN"
| "fdiv x NaN = NaN"
| "fdiv (Infinity s) (Infinity t) = NaN"
| "fdiv (Infinity s) (Finite t n f) = Infinity (s \<noteq> t)"
| "fdiv (Finite s m e) (Infinity t) = Finite (s \<noteq> t) 0 (- 149)"
| "fdiv (Finite s m e) (Finite t n f) =
     (if n = 0 then (if m = 0 then NaN else Infinity (s \<noteq> t))
      else round_float (s \<noteq> t) (valof (Finite s m e) / valof (Finite t n f)))"

fun flt :: "float \<Rightarrow> float \<Rightarrow> bool" where
  \<comment> \<open>\<^verbatim>\<open>x < y\<close>: false when an operand is a NaN\<close>
  "flt NaN y = False"
| "flt x NaN = False"
| "flt (Infinity s) (Infinity t) = (s \<and> \<not> t)"
| "flt (Infinity s) (Finite t n f) = s"
| "flt (Finite s m e) (Infinity t) = (\<not> t)"
| "flt (Finite s m e) (Finite t n f) = (valof (Finite s m e) < valof (Finite t n f))"

fun fle :: "float \<Rightarrow> float \<Rightarrow> bool" where
  \<comment> \<open>\<^verbatim>\<open>x <= y\<close>: false when an operand is a NaN\<close>
  "fle NaN y = False"
| "fle x NaN = False"
| "fle (Infinity s) (Infinity t) = (s \<or> \<not> t)"
| "fle (Infinity s) (Finite t n f) = s"
| "fle (Finite s m e) (Infinity t) = (\<not> t)"
| "fle (Finite s m e) (Finite t n f) = (valof (Finite s m e) \<le> valof (Finite t n f))"

definition fgt :: "float \<Rightarrow> float \<Rightarrow> bool" where
  "fgt x y = flt y x"

definition fge :: "float \<Rightarrow> float \<Rightarrow> bool" where
  "fge x y = fle y x"

fun fabsf :: "float \<Rightarrow> float" where
  "fabsf (Finite s m e) = Finite False m e"
| "fabsf (Infinity s) = Infinity False"
| "fabsf NaN = NaN"

definition fmaxf :: "float \<Rightarrow> float \<Rightarrow> float" where
  \<comment> \<open>C99 \<^verbatim>\<open>fmaxf\<close>: a NaN operand is treated as missing data\<close>
  "fmaxf x y = (if fge x y then x else if flt x y then y else if y = NaN then x else y)"

definition fminf :: "float \<Rightarrow> float \<Rightarrow> float" where
  \<comment> \<open>C99 \<^verbatim>\<open>fminf\<close>: a NaN operand is treated as missing data\<close>
  "fminf x y = (if fle x y then x else if fgt x y then y else if y = NaN then x else y)"

section \<open>The globals of \<^verbatim>\<open>cfd.c\<close>\<close>

record params =
  G_DT :: float
  G_WAVE_SPEED_SQ :: float
  G_DAMPING :: float
  G_INITIAL_WATER_LEVEL :: float
  G_INITIAL_TILT :: float
  G_SLEEP_MS :: int

definition default_params :: params where
  "default_params =
     \<lparr>G_DT = flit (2 / 10), G_WAVE_SPEED_SQ = flit (5 / 10), G_DAMPING = flit (1 / 100),
      G_INITIAL_WATER_LEVEL = flit (5 / 10), G_INITIAL_TILT = flit (1 / 10), G_SLEEP_MS = 50\<rparr>"

text \<open>
  The five arrays are lists of rows. \<^verbatim>\<open>WIDTH\<close> and \<^verbatim>\<open>HEIGHT\<close> are C ints that
  \<^verbatim>\<open>main\<close> makes at least 10 and 5 before anything is allocated; they are natural
  numbers here, and \<open>HEIGHT - 1\<close> is only evaluated inside a loop over \<open>r < HEIGHT\<close>,
  where truncated subtraction and C's agree.
\<close>

record grid =
  WIDTH :: nat
  HEIGHT :: nat
  h :: "float list list"
  vel :: "float list list"
  next_h :: "float list list"
  next_vel :: "float list list"
  obstacle :: "int list list"

definition upd2 :: "'a list list \<Rightarrow> nat \<Rightarrow> nat \<Rightarrow> 'a \<Rightarrow> 'a list list" where
  \<comment> \<open>the assignment \<^verbatim>\<open>a[r][c] = v\<close>\<close>
  "upd2 a r c v = a[r := (a ! r)[c := v]]"

definition allocate_grids :: "nat \<Rightarrow> nat \<Rightarrow> grid" where
  \<comment> \<open>\<^verbatim>\<open>calloc\<close> zero-fills every row; a failed allocation exits the process\<close>
  "allocate_grids W H =
     \<lparr>WIDTH = W, HEIGHT = H,
      h = replicate H (replicate W (Finite False 0 (- 149))),
      vel = replicate H (replicate W (Finite False 0 (- 149))),
      next_h = replicate H (replicate W (Finite False 0 (- 149))),
      next_vel = replicate H (replicate W (Finite False 0 (- 149))),
      obstacle = replicate H (replicate W 0)\<rparr>"

section \<open>\<^verbatim>\<open>initialize_simulation\<close>\<close>

definition tilt_effect :: "params \<Rightarrow> nat \<Rightarrow> nat \<Rightarrow> float" where
  \<comment> \<open>the local \<^verbatim>\<open>tilt_effect\<close> for column \<open>c\<close> of a domain \<open>W\<close> wide\<close>
  "tilt_effect p W c =
     fmul (fmul (G_INITIAL_TILT p)
                (fsub (fdiv (float_of_int (int c)) (fsub (float_of_int (int W)) (flit 1)))
                      (flit (5 / 10))))
          (flit 2)"

definition tilt_height :: "params \<Rightarrow> nat \<Rightarrow> nat \<Rightarrow> float" where
  \<comment> \<open>the height an interior cell of column \<open>c\<close> gets\<close>
  "tilt_height p W c =
     (let h0 = fadd (G_INITIAL_WATER_LEVEL p) (tilt_effect p W c);
          h1 = fmaxf (flit 0) h0
      in fminf (flit 1) h1)"

definition init_cell :: "params \<Rightarrow> nat \<Rightarrow> nat \<Rightarrow> grid \<Rightarrow> grid" where
  "init_cell p r c g =
     (if r = 0 \<or> r = HEIGHT g - 1 \<or> c = 0 \<or> c = WIDTH g - 1 then
        g\<lparr>obstacle := upd2 (obstacle g) r c 1,
          h := upd2 (h g) r c (flit 0),
          vel := upd2 (vel g) r c (flit 0)\<rparr>
      else
        g\<lparr>obstacle := upd2 (obstacle g) r c 0,
          h := upd2 (h g) r c (tilt_height p (WIDTH g) c),
          vel := upd2 (vel g) r c (flit 0)\<rparr>)"

function init_cols :: "params \<Rightarrow> nat \<Rightarrow> nat \<Rightarrow> grid \<Rightarrow> grid" where
  "init_cols p r c g = (if c < WIDTH g then init_cols p r (c + 1) (init_cell p r c g) else g)"
  by pat_completeness auto
termination
  by (relation "measure (\<lambda>(p, r, c, g). WIDTH g - c)") (auto simp: init_cell_def)

function init_rows :: "params \<Rightarrow> nat \<Rightarrow> grid \<Rightarrow> grid" where
  "init_rows p r g = (if r < HEIGHT g then init_rows p (r + 1) (init_cols p r 0 g) else g)"
  by pat_completeness auto

declare init_cols.simps [simp del]

lemma init_cols_dims [simp]:
  "WIDTH (init_cols p r c g) = WIDTH g \<and> HEIGHT (init_cols p r c g) = HEIGHT g"
proof (induction p r c g rule: init_cols.induct)
  case (1 p r c g)
  show ?case
  proof (cases "c < WIDTH g")
    case True
    with 1 show ?thesis
      by (subst (1 2) init_cols.simps) (simp add: init_cell_def)
  next
    case False
    then show ?thesis
      by (subst (1 2) init_cols.simps) simp
  qed
qed

termination init_rows
  by (relation "measure (\<lambda>(p, r, g). HEIGHT g - r)") auto

declare init_rows.simps [simp del]

definition initialize_simulation :: "params \<Rightarrow> grid \<Rightarrow> grid" where
  "initialize_simulation p g =
     (let g1 = init_rows p 0 g in
      if flt (fabsf (G_INITIAL_TILT p)) (flit (1 / 1000)) \<and> 2 < HEIGHT g1 \<and> 2 < WIDTH g1 then
        (let disturb_r = HEIGHT g1 div 2; disturb_c = WIDTH g1 div 2 in
         if obstacle g1 ! disturb_r ! disturb_c = 0 then
           g1\<lparr>h := upd2 (h g1) disturb_r disturb_c
                      (fminf (flit 1) (fadd (G_INITIAL_WATER_LEVEL p) (flit (4 / 10))))\<rparr>
         else g1)
      else g1)"

section \<open>\<^verbatim>\<open>simulation_step\<close>\<close>

definition laplacian_h :: "grid \<Rightarrow> nat \<Rightarrow> nat \<Rightarrow> float" where
  "laplacian_h g r c =
     (let h_up = (if 0 < r \<and> obstacle g ! (r - 1) ! c = 0 then h g ! (r - 1) ! c else h g ! r ! c);
          h_down = (if r < HEIGHT g - 1 \<and> obstacle g ! (r + 1) ! c = 0
                    then h g ! (r + 1) ! c else h g ! r ! c);
          h_left = (if 0 < c \<and> obstacle g ! r ! (c - 1) = 0 then h g ! r ! (c - 1) else h g ! r ! c);
          h_right = (if c < WIDTH g - 1 \<and> obstacle g ! r ! (c + 1) = 0
                     then h g ! r ! (c + 1) else h g ! r ! c)
      in fsub (fadd (fadd (fadd h_up h_down) h_left) h_right) (fmul (flit 4) (h g ! r ! c)))"

definition cell_vel :: "params \<Rightarrow> grid \<Rightarrow> nat \<Rightarrow> nat \<Rightarrow> float" where
  \<comment> \<open>\<^verbatim>\<open>current_vel\<close> when it is stored into \<^verbatim>\<open>next_vel[r][c]\<close>\<close>
  "cell_vel p g r c =
     (let current_vel = vel g ! r ! c;
          current_vel = fadd current_vel (fmul (fmul (G_WAVE_SPEED_SQ p) (laplacian_h g r c)) (G_DT p))
      in fmul current_vel (fsub (flit 1) (fmul (G_DAMPING p) (G_DT p))))"

definition cell_h :: "params \<Rightarrow> grid \<Rightarrow> nat \<Rightarrow> nat \<Rightarrow> float" where
  \<comment> \<open>\<^verbatim>\<open>current_h\<close> when it is stored into \<^verbatim>\<open>next_h[r][c]\<close>\<close>
  "cell_h p g r c =
     (let current_h = h g ! r ! c;
          current_h = fadd current_h (fmul (cell_vel p g r c) (G_DT p));
          current_h = fmaxf (flit 0) current_h
      in fminf (flit 1) current_h)"

definition step_cell :: "params \<Rightarrow> nat \<Rightarrow> nat \<Rightarrow> grid \<Rightarrow> grid" where
  "step_cell p r c g =
     (if obstacle g ! r ! c \<noteq> 0 then
        g\<lparr>next_h := upd2 (next_h g) r c (flit 0),
          next_vel := upd2 (next_vel g) r c (flit 0)\<rparr>
      else
        g\<lparr>next_vel := upd2 (next_vel g) r c (cell_vel p g r c),
          next_h := upd2 (next_h g) r c (cell_h p g r c)\<rparr>)"

function step_cols :: "params \<Rightarrow> nat \<Rightarrow> nat \<Rightarrow> grid \<Rightarrow> grid" where
  "step_cols p r c g = (if c < WIDTH g then step_cols p r (c + 1) (step_cell p r c g) else g)"
  by pat_completeness auto
termination
  by (relation "measure (\<lambda>(p, r, c, g). WIDTH g - c)") (auto simp: step_cell_def)

declare step_cols.simps [simp del]

function step_rows :: "params \<Rightarrow> nat \<Rightarrow> grid \<Rightarrow> grid" where
  "step_rows p r g = (if r < HEIGHT g then step_rows p (r + 1) (step_cols p r 0 g) else g)"
  by pat_completeness auto

lemma step_cols_dims [simp]:
  "WIDTH (step_cols p r c g) = WIDTH g \<and> HEIGHT (step_cols p r c g) = HEIGHT g"
proof (induction p r c g rule: step_cols.induct)
  case (1 p r c g)
  show ?case
  proof (cases "c < WIDTH g")
    case True
    with 1 show ?thesis
      by (subst (1 2) step_cols.simps) (simp add: step_cell_def)
  next
    case False
    then show ?thesis
      by (subst (1 2) step_cols.simps) simp
  qed
qed

termination step_rows
  by (relation "measure (\<lambda>(p, r, g). HEIGHT g - r)") auto

declare step_rows.simps [simp del]

definition simulation_step :: "params \<Rightarrow> grid \<Rightarrow> grid" where
  \<comment> \<open>the two loops, then the exchange of the current and the next buffers\<close>
  "simulation_step p g =
     (let g1 = step_rows p 0 g in
      g1\<lparr>h := next_h g1, next_h := h g1, vel := next_vel g1, next_vel := vel g1\<rparr>)"

fun simulate :: "params \<Rightarrow> nat \<Rightarrow> grid \<Rightarrow> grid" where
  \<comment> \<open>\<open>n\<close> rounds of the main loop\<close>
  "simulate p 0 g = g"
| "simulate p (Suc n) g = simulate p n (simulation_step p g)"

section \<open>\<^verbatim>\<open>height_to_char\<close>\<close>

definition height_to_char :: "float \<Rightarrow> char" where
  "height_to_char current_h =
     (if fgt current_h (flit (80 / 100)) then CHR ''@''
      else if fgt current_h (flit (65 / 100)) then CHR ''#''
      else if fgt current_h (flit (50 / 100)) then CHR ''*''
      else if fgt current_h (flit (35 / 100)) then CHR ''=''
      else if fgt current_h (flit (20 / 100)) then CHR ''-''
      else if fgt current_h (flit (5 / 100)) then CHR ''.''
      else CHR '' '')"

section \<open>\<^verbatim>\<open>main\<close>\<close>

text \<open>
  What the process writes, in order, and how it ends: it exits with a status, or it
  reaches the endless loop with the parameters and the initialised arrays.
\<close>

datatype message =
  Usage | UnknownOption string
  | ErrorDt | ErrorSpeedSq | ErrorDamping | ErrorLevel | ErrorTilt | ErrorSleep
  | StabilityWarning | TerminalTooSmall | Banner | InstabilityNotice

datatype outcome = Exited "message list" int | Simulating "message list" params grid

text \<open>
  The argument loop. \<open>atof\<close> is the library's \<^verbatim>\<open>atof\<close> followed by the conversion of
  its double to \<^verbatim>\<open>float\<close>, \<open>atoi\<close> the library's \<^verbatim>\<open>atoi\<close>; \<open>argv\<close> holds the program
  name first, so \<open>length argv\<close> is \<^verbatim>\<open>argc\<close>.
\<close>

function parse_args ::
  "(string \<Rightarrow> float) \<Rightarrow> (string \<Rightarrow> int) \<Rightarrow> string list \<Rightarrow> nat \<Rightarrow> params
     \<Rightarrow> (message list \<times> int) + params" where
  "parse_args atof atoi argv k p =
     (if k < length argv then
        (if argv ! k = ''--dt'' then
           (if k + 1 < length argv
            then parse_args atof atoi argv (k + 2) (p\<lparr>G_DT := atof (argv ! (k + 1))\<rparr>)
            else Inl ([Usage], 1))
         else if argv ! k = ''--speed_sq'' then
           (if k + 1 < length argv
            then parse_args atof atoi argv (k + 2) (p\<lparr>G_WAVE_SPEED_SQ := atof (argv ! (k + 1))\<rparr>)
            else Inl ([Usage], 1))
         else if argv ! k = ''--damping'' then
           (if k + 1 < length argv
            then parse_args atof atoi argv (k + 2) (p\<lparr>G_DAMPING := atof (argv ! (k + 1))\<rparr>)
            else Inl ([Usage], 1))
         else if argv ! k = ''--level'' then
           (if k + 1 < length argv
            then parse_args atof atoi argv (k + 2)
                   (p\<lparr>G_INITIAL_WATER_LEVEL := atof (argv ! (k + 1))\<rparr>)
            else Inl ([Usage], 1))
         else if argv ! k = ''--tilt'' then
           (if k + 1 < length argv
            then parse_args atof atoi argv (k + 2) (p\<lparr>G_INITIAL_TILT := atof (argv ! (k + 1))\<rparr>)
            else Inl ([Usage], 1))
         else if argv ! k = ''--sleep'' then
           (if k + 1 < length argv
            then parse_args atof atoi argv (k + 2) (p\<lparr>G_SLEEP_MS := atoi (argv ! (k + 1))\<rparr>)
            else Inl ([Usage], 1))
         else if argv ! k = ''-h'' \<or> argv ! k = ''--help'' then Inl ([Usage], 0)
         else Inl ([UnknownOption (argv ! k), Usage], 1))
      else Inr p)"
  by pat_completeness auto
termination
  by (relation "measure (\<lambda>(atof, atoi, argv, k, p). length argv - k)") auto

declare parse_args.simps [simp del]

definition validate :: "params \<Rightarrow> message option" where
  \<comment> \<open>the checks of the parsed parameters, in the order \<^verbatim>\<open>main\<close> makes them\<close>
  "validate p =
     (if fle (G_DT p) (float_of_int 0) then Some ErrorDt
      else if fle (G_WAVE_SPEED_SQ p) (float_of_int 0) then Some ErrorSpeedSq
      else if flt (G_DAMPING p) (flit 0) then Some ErrorDamping
      else if flt (G_INITIAL_WATER_LEVEL p) (flit 0) \<or> fgt (G_INITIAL_WATER_LEVEL p) (flit 1)
        then Some ErrorLevel
      else if flt (G_INITIAL_TILT p) (flit 0) \<or> fgt (G_INITIAL_TILT p) (flit 1)
        then Some ErrorTilt
      else if G_SLEEP_MS p < 0 then Some ErrorSleep
      else None)"

definition get_terminal_size :: "(nat \<times> nat) option \<Rightarrow> int \<times> int" where
  \<comment> \<open>the POSIX branch; the argument is \<^verbatim>\<open>(ws_col, ws_row)\<close>, or \<open>None\<close> when \<^verbatim>\<open>ioctl\<close> fails\<close>
  "get_terminal_size ws =
     (let (width, height) =
            (case ws of
               None \<Rightarrow> (80, 24)
             | Some (ws_col, ws_row) \<Rightarrow>
                 if ws_col = 0 \<or> ws_row = 0 then (80, 24) else (int ws_col, int ws_row - 1))
      in (if width \<le> 0 then 80 else width, if height \<le> 0 then 24 else height))"

definition domain_size :: "int \<times> int \<Rightarrow> int \<times> int" where
  \<comment> \<open>\<^verbatim>\<open>WIDTH\<close> and \<^verbatim>\<open>HEIGHT\<close> after the minimum-size check of \<^verbatim>\<open>main\<close>\<close>
  "domain_size sz =
     (let (width, height) = sz in
      if width < 10 \<or> height < 5
      then (if width < 10 then 20 else width, if height < 5 then 10 else height)
      else (width, height))"

definition main ::
  "(string \<Rightarrow> float) \<Rightarrow> (string \<Rightarrow> int) \<Rightarrow> string list \<Rightarrow> (nat \<times> nat) option \<Rightarrow> outcome" where
  "main atof atoi argv ws =
     (case parse_args atof atoi argv 1 default_params of
        Inl (out, status) \<Rightarrow> Exited out status
      | Inr p \<Rightarrow>
          (case validate p of
             Some err \<Rightarrow> Exited [err] 1
           | None \<Rightarrow>
               (let stability_metric = fmul (fmul (G_WAVE_SPEED_SQ p) (G_DT p)) (G_DT p);
                    unstable = fgt stability_metric (flit (5 / 10));
                    sz = get_terminal_size ws;
                    (width, height) = domain_size sz;
                    out = (if unstable then [StabilityWarning] else [])
                          @ (if fst sz < 10 \<or> snd sz < 5 then [TerminalTooSmall] else [])
                          @ [Banner]
                          @ (if unstable then [InstabilityNotice] else [])
                in Simulating out p
                     (initialize_simulation p (allocate_grids (nat width) (nat height))))))"

section \<open>Notions the statements use\<close>

text \<open>
  The five arrays have \<^verbatim>\<open>HEIGHT\<close> rows of \<^verbatim>\<open>WIDTH\<close> entries, as \<^verbatim>\<open>allocate_grids\<close>
  makes them.
\<close>

definition shaped :: "nat \<Rightarrow> nat \<Rightarrow> 'a list list \<Rightarrow> bool" where
  "shaped H W a = (length a = H \<and> (\<forall>row \<in> set a. length row = W))"

definition wf_grid :: "grid \<Rightarrow> bool" where
  "wf_grid g =
     (shaped (HEIGHT g) (WIDTH g) (h g) \<and> shaped (HEIGHT g) (WIDTH g) (vel g)
      \<and> shaped (HEIGHT g) (WIDTH g) (next_h g) \<and> shaped (HEIGHT g) (WIDTH g) (next_vel g)
      \<and> shaped (HEIGHT g) (WIDTH g) (obstacle g))"

text \<open>What one round of \<^verbatim>\<open>simulation_step\<close> stores for the cell \<open>(r, c)\<close>.\<close>

definition written_h :: "params \<Rightarrow> grid \<Rightarrow> nat \<Rightarrow> nat \<Rightarrow> float" where
  "written_h p g r c = (if obstacle g ! r ! c \<noteq> 0 then flit 0 else cell_h p g r c)"

definition written_vel :: "params \<Rightarrow> grid \<Rightarrow> nat \<Rightarrow> nat \<Rightarrow> float" where
  "written_vel p g r c = (if obstacle g ! r ! c \<noteq> 0 then flit 0 else cell_vel p g r c)"

text \<open>
  The step as the specification words it: a neighbour counts when it lies inside the
  domain and is no obstacle, otherwise the cell's own height stands in for it.
\<close>

definition spec_neighbour :: "grid \<Rightarrow> nat \<Rightarrow> nat \<Rightarrow> int \<Rightarrow> int \<Rightarrow> float" where
  "spec_neighbour g r c dr dc =
     (let r' = int r + dr; c' = int c + dc in
      if 0 \<le> r' \<and> r' < int (HEIGHT g) \<and> 0 \<le> c' \<and> c' < int (WIDTH g)
         \<and> obstacle g ! nat r' ! nat c' = 0
      then h g ! nat r' ! nat c' else h g ! r ! c)"

definition spec_laplacian :: "grid \<Rightarrow> nat \<Rightarrow> nat \<Rightarrow> float" where
  "spec_laplacian g r c =
     fsub (fadd (fadd (fadd (spec_neighbour g r c (- 1) 0) (spec_neighbour g r c 1 0))
                      (spec_neighbour g r c 0 (- 1)))
                (spec_neighbour g r c 0 1))
          (fmul (flit 4) (h g ! r ! c))"

definition spec_velocity :: "params \<Rightarrow> grid \<Rightarrow> nat \<Rightarrow> nat \<Rightarrow> float" where
  "spec_velocity p g r c =
     fmul (fadd (vel g ! r ! c) (fmul (fmul (G_WAVE_SPEED_SQ p) (spec_laplacian g r c)) (G_DT p)))
          (fsub (flit 1) (fmul (G_DAMPING p) (G_DT p)))"

definition clamp01 :: "float \<Rightarrow> float" where
  "clamp01 x = fminf (flit 1) (fmaxf (flit 0) x)"

definition in01 :: "float \<Rightarrow> bool" where
  \<comment> \<open>\<^verbatim>\<open>0.0f <= x && x <= 1.0f\<close>\<close>
  "in01 x = (fle (flit 0) x \<and> fle x (flit 1))"

text \<open>The cells of the first and last row and column, and what the initialisation stores.\<close>

definition border :: "nat \<Rightarrow> nat \<Rightarrow> nat \<Rightarrow> nat \<Rightarrow> bool" where
  "border W H r c = (r = 0 \<or> r = H - 1 \<or> c = 0 \<or> c = W - 1)"

definition init_h :: "params \<Rightarrow> nat \<Rightarrow> nat \<Rightarrow> nat \<Rightarrow> nat \<Rightarrow> float" where
  "init_h p W H r c = (if border W H r c then flit 0 else tilt_height p W c)"

definition disturbed :: "params \<Rightarrow> nat \<Rightarrow> nat \<Rightarrow> bool" where
  "disturbed p W H = (flt (fabsf (G_INITIAL_TILT p)) (flit (1 / 1000)) \<and> 2 < H \<and> 2 < W)"

definition bump :: "params \<Rightarrow> float" where
  "bump p = fminf (flit 1) (fadd (G_INITIAL_WATER_LEVEL p) (flit (4 / 10)))"

text \<open>
  The command line as a list: options that take a value, the help flags, the assignment
  an option makes, and the arguments read from left to right.
\<close>

definition value_option :: "string \<Rightarrow> bool" where
  "value_option a =
     (a = ''--dt'' \<or> a = ''--speed_sq'' \<or> a = ''--damping'' \<or> a = ''--level''
      \<or> a = ''--tilt'' \<or> a = ''--sleep'')"

definition help_flag :: "string \<Rightarrow> bool" where
  "help_flag a = (a = ''-h'' \<or> a = ''--help'')"

definition set_option :: "(string \<Rightarrow> float) \<Rightarrow> (string \<Rightarrow> int) \<Rightarrow> string \<Rightarrow> string \<Rightarrow> params \<Rightarrow> params" where
  "set_option atof atoi a v p =
     (if a = ''--dt'' then p\<lparr>G_DT := atof v\<rparr>
      else if a = ''--speed_sq'' then p\<lparr>G_WAVE_SPEED_SQ := atof v\<rparr>
      else if a = ''--damping'' then p\<lparr>G_DAMPING := atof v\<rparr>
      else if a = ''--level'' then p\<lparr>G_INITIAL_WATER_LEVEL := atof v\<rparr>
      else if a = ''--tilt'' then p\<lparr>G_INITIAL_TILT := atof v\<rparr>
      else if a = ''--sleep'' then p\<lparr>G_SLEEP_MS := atoi v\<rparr>
      else p)"

fun parse_list ::
  "(string \<Rightarrow> float) \<Rightarrow> (string \<Rightarrow> int) \<Rightarrow> string list \<Rightarrow> params
     \<Rightarrow> (message list \<times> int) + params" where
  "parse_list atof atoi [] p = Inr p"
| "parse_list atof atoi (a # rest) p =
     (if value_option a then
        (case rest of
           [] \<Rightarrow> Inl ([Usage], 1)
         | v # rest' \<Rightarrow> parse_list atof atoi rest' (set_option atof atoi a v p))
      else if help_flag a then Inl ([Usage], 0)
      else Inl ([UnknownOption a, Usage], 1))"

fun options :: "(string \<times> string) list \<Rightarrow> string list" where
  "options [] = []"
| "options ((a, v) # ps) = a # v # options ps"

fun set_options ::
  "(string \<Rightarrow> float) \<Rightarrow> (string \<Rightarrow> int) \<Rightarrow> (string \<times> string) list \<Rightarrow> params \<Rightarrow> params" where
  "set_options atof atoi [] p = p"
| "set_options atof atoi ((a, v) # ps) p = set_options atof atoi ps (set_option atof atoi a v p)"

text \<open>\<^verbatim>\<open>atof\<close> and \<^verbatim>\<open>atoi\<close> on the strings of the examples; both return 0 for a string that
  holds no number.\<close>

definition sample_atof :: "string \<Rightarrow> float" where
  "sample_atof s =
     (if s = ''1.0'' then flit 1 else if s = ''2.0'' then flit 2
      else if s = ''-1.0'' then fneg (flit 1) else flit 0)"

definition sample_atoi :: "string \<Rightarrow> int" where
  "sample_atoi s = (if s = ''-1'' then - 1 else 0)"

text \<open>A domain of three by three cells: one water cell of height \<open>x\<close> inside the walls.\<close>

definition pool :: "float \<Rightarrow> float list list \<Rightarrow> float list list \<Rightarrow> grid" where
  "pool x nh nv =
     \<lparr>WIDTH = 3, HEIGHT = 3,
      h = [[flit 0, flit 0, flit 0], [flit 0, x, flit 0], [flit 0, flit 0, flit 0]],
      vel = replicate 3 (replicate 3 (flit 0)),
      next_h = nh, next_vel = nv,
      obstacle = [[1, 1, 1], [1, 0, 1], [1, 1, 1]]\<rparr>"



fun is_zero :: "float \<Rightarrow> bool" where
  \<comment> \<open>\<^verbatim>\<open>x == 0.0f\<close>: either zero\<close>
  "is_zero (Finite s m e) = (m = 0)"
| "is_zero (Infinity s) = False"
| "is_zero NaN = False"

fun finite_float :: "float \<Rightarrow> bool" where
  "finite_float (Finite s m e) = True"
| "finite_float (Infinity s) = False"
| "finite_float NaN = False"


section \<open>Facts about the arithmetic\<close>

lemma ilog2_eval:
  "2 \<le> a \<Longrightarrow> ilog2 a = ilog2 (a / 2) + 1"
  "0 < a \<Longrightarrow> a < 1 \<Longrightarrow> ilog2 a = ilog2 (a * 2) - 1"
  "1 \<le> a \<Longrightarrow> a < 2 \<Longrightarrow> ilog2 a = 0"
  by (subst ilog2.simps, simp)+

lemma round_float_eval:
  "round_float zs x =
     (if x = 0 then Finite zs 0 (- 149)
      else if rne (\<bar>x\<bar> / pow2 (max (- 149) (ilog2 \<bar>x\<bar> - 23))) = 2 ^ 24
        then (if 104 < max (- 149) (ilog2 \<bar>x\<bar> - 23) + 1 then Infinity (x < 0)
              else Finite (x < 0) (2 ^ 23) (max (- 149) (ilog2 \<bar>x\<bar> - 23) + 1))
      else if 104 < max (- 149) (ilog2 \<bar>x\<bar> - 23) then Infinity (x < 0)
      else Finite (x < 0) (rne (\<bar>x\<bar> / pow2 (max (- 149) (ilog2 \<bar>x\<bar> - 23))))
             (max (- 149) (ilog2 \<bar>x\<bar> - 23)))"
  by (simp add: round_float_def Let_def)

text \<open>Closed expressions are evaluated with these rules.\<close>

lemmas float_eval = flit_def float_of_int_def round_float_eval ilog2_eval rne_def pow2_def fsub_def

lemma flit_0: "flit 0 = Finite False 0 (- 149)"
  by (simp add: float_eval)

text \<open>The literals of the program, and the sample heights of the glyph table.\<close>

lemma flit_values:
  "flit 1 = Finite False 8388608 (- 23)"
  "flit 2 = Finite False 8388608 (- 22)"
  "flit 4 = Finite False 8388608 (- 21)"
  "flit (1 / 2) = Finite False 8388608 (- 24)"
  "flit (2 / 5) = Finite False 13421773 (- 25)"
  "flit (1 / 1000) = Finite False 8589935 (- 33)"
  "flit (4 / 5) = Finite False 13421773 (- 24)"
  "flit (13 / 20) = Finite False 10905190 (- 24)"
  "flit (7 / 20) = Finite False 11744051 (- 25)"
  "flit (1 / 5) = Finite False 13421773 (- 26)"
  "flit (1 / 20) = Finite False 13421773 (- 28)"
  by (simp_all add: float_eval)

lemma flit_samples:
  "flit (9 / 10) = Finite False 15099494 (- 24)"
  "flit (7 / 10) = Finite False 11744051 (- 24)"
  "flit (11 / 20) = Finite False 9227469 (- 24)"
  "flit (1 / 4) = Finite False 8388608 (- 25)"
  "flit (1 / 10) = Finite False 13421773 (- 27)"
  by (simp_all add: float_eval)

lemma flt_NaN [simp]: "flt x NaN = False"
  by (cases x) simp_all

lemma fle_NaN [simp]: "fle x NaN = False"
  by (cases x) simp_all

lemma flt_trans: "flt a b \<Longrightarrow> flt b c \<Longrightarrow> flt a c"
  by (cases a; cases b; cases c) auto

section \<open>The glyph of a height\<close>

text \<open>
  C7. \<^verbatim>\<open>height_to_char\<close> returns \<open>@\<close> for a height above \<^verbatim>\<open>0.80f\<close>, \<open>#\<close> above \<^verbatim>\<open>0.65f\<close>,
  \<open>*\<close> above \<^verbatim>\<open>0.50f\<close>, \<open>=\<close> above \<^verbatim>\<open>0.35f\<close>, \<open>-\<close> above \<^verbatim>\<open>0.20f\<close>, \<open>.\<close> above \<^verbatim>\<open>0.05f\<close>
  and a space otherwise (a NaN included); the heights 0.9, 0.7, 0.55, 0.4, 0.25, 0.1
  and 0.0 give \<open>@\<close>, \<open>#\<close>, \<open>*\<close>, \<open>=\<close>, \<open>-\<close>, \<open>.\<close> and the space.
\<close>

theorem height_to_char_glyphs:
  "(fgt x (flit (80 / 100)) \<longrightarrow> height_to_char x = CHR ''@'')
   \<and> (fgt x (flit (65 / 100)) \<and> \<not> fgt x (flit (80 / 100)) \<longrightarrow> height_to_char x = CHR ''#'')
   \<and> (fgt x (flit (50 / 100)) \<and> \<not> fgt x (flit (65 / 100)) \<longrightarrow> height_to_char x = CHR ''*'')
   \<and> (fgt x (flit (35 / 100)) \<and> \<not> fgt x (flit (50 / 100)) \<longrightarrow> height_to_char x = CHR ''='')
   \<and> (fgt x (flit (20 / 100)) \<and> \<not> fgt x (flit (35 / 100)) \<longrightarrow> height_to_char x = CHR ''-'')
   \<and> (fgt x (flit (5 / 100)) \<and> \<not> fgt x (flit (20 / 100)) \<longrightarrow> height_to_char x = CHR ''.'')
   \<and> (\<not> fgt x (flit (5 / 100)) \<longrightarrow> height_to_char x = CHR '' '')
   \<and> height_to_char (flit (9 / 10)) = CHR ''@''
   \<and> height_to_char (flit (7 / 10)) = CHR ''#''
   \<and> height_to_char (flit (55 / 100)) = CHR ''*''
   \<and> height_to_char (flit (4 / 10)) = CHR ''=''
   \<and> height_to_char (flit (25 / 100)) = CHR ''-''
   \<and> height_to_char (flit (1 / 10)) = CHR ''.''
   \<and> height_to_char (flit 0) = CHR '' ''
   \<and> height_to_char NaN = CHR '' ''"
proof -
  have t1: "flt (flit (65 / 100)) (flit (80 / 100))" by (simp add: flit_values pow2_def)
  have t2: "flt (flit (50 / 100)) (flit (65 / 100))" by (simp add: flit_values pow2_def)
  have t3: "flt (flit (35 / 100)) (flit (50 / 100))" by (simp add: flit_values pow2_def)
  have t4: "flt (flit (20 / 100)) (flit (35 / 100))" by (simp add: flit_values pow2_def)
  have t5: "flt (flit (5 / 100)) (flit (20 / 100))" by (simp add: flit_values pow2_def)
  have up: "\<not> fgt x (flit (5 / 100)) \<Longrightarrow> \<not> fgt x (flit (20 / 100))"
    "\<not> fgt x (flit (20 / 100)) \<Longrightarrow> \<not> fgt x (flit (35 / 100))"
    "\<not> fgt x (flit (35 / 100)) \<Longrightarrow> \<not> fgt x (flit (50 / 100))"
    "\<not> fgt x (flit (50 / 100)) \<Longrightarrow> \<not> fgt x (flit (65 / 100))"
    "\<not> fgt x (flit (65 / 100)) \<Longrightarrow> \<not> fgt x (flit (80 / 100))"
    unfolding fgt_def using flt_trans t1 t2 t3 t4 t5 by blast+
  have g1: "fgt x (flit (80 / 100)) \<longrightarrow> height_to_char x = CHR ''@''"
    unfolding height_to_char_def by simp
  have g2: "fgt x (flit (65 / 100)) \<and> \<not> fgt x (flit (80 / 100)) \<longrightarrow> height_to_char x = CHR ''#''"
    unfolding height_to_char_def by simp
  have g3: "fgt x (flit (50 / 100)) \<and> \<not> fgt x (flit (65 / 100)) \<longrightarrow> height_to_char x = CHR ''*''"
    unfolding height_to_char_def using up by auto
  have g4: "fgt x (flit (35 / 100)) \<and> \<not> fgt x (flit (50 / 100)) \<longrightarrow> height_to_char x = CHR ''=''"
    unfolding height_to_char_def using up by auto
  have g5: "fgt x (flit (20 / 100)) \<and> \<not> fgt x (flit (35 / 100)) \<longrightarrow> height_to_char x = CHR ''-''"
    unfolding height_to_char_def using up by auto
  have g6: "fgt x (flit (5 / 100)) \<and> \<not> fgt x (flit (20 / 100)) \<longrightarrow> height_to_char x = CHR ''.''"
    unfolding height_to_char_def using up by auto
  have g7: "\<not> fgt x (flit (5 / 100)) \<longrightarrow> height_to_char x = CHR '' ''"
    unfolding height_to_char_def using up by auto
  have c1: "height_to_char (flit (9 / 10)) = CHR ''@''"
    by (simp add: height_to_char_def fgt_def flit_values flit_samples pow2_def)
  have c2: "height_to_char (flit (7 / 10)) = CHR ''#''"
    by (simp add: height_to_char_def fgt_def flit_values flit_samples pow2_def)
  have c3: "height_to_char (flit (55 / 100)) = CHR ''*''"
    by (simp add: height_to_char_def fgt_def flit_values flit_samples pow2_def)
  have c4: "height_to_char (flit (4 / 10)) = CHR ''=''"
    by (simp add: height_to_char_def fgt_def flit_values flit_samples pow2_def)
  have c5: "height_to_char (flit (25 / 100)) = CHR ''-''"
    by (simp add: height_to_char_def fgt_def flit_values flit_samples pow2_def)
  have c6: "height_to_char (flit (1 / 10)) = CHR ''.''"
    by (simp add: height_to_char_def fgt_def flit_values flit_samples pow2_def)
  have c7: "height_to_char (flit 0) = CHR '' ''"
    by (simp add: height_to_char_def fgt_def flit_values flit_0 pow2_def)
  have c8: "height_to_char NaN = CHR '' ''"
    by (simp add: height_to_char_def fgt_def flit_values)
  from g1 g2 g3 g4 g5 g6 g7 c1 c2 c3 c4 c5 c6 c7 c8 show ?thesis
    by (intro conjI)
qed

theorem height_to_char_glyphs_witness:
  "fgt (flit (7 / 10)) (flit (65 / 100)) \<and> \<not> fgt (flit (7 / 10)) (flit (80 / 100))
   \<and> height_to_char (flit (7 / 10)) = CHR ''#''
   \<and> \<not> fgt (Finite True 1 0) (flit (5 / 100))
   \<and> height_to_char (Finite True 1 0) = CHR '' ''"
proof -
  have a: "fgt (flit (7 / 10)) (flit (65 / 100))"
    by (simp add: fgt_def flit_values flit_samples pow2_def)
  have b: "\<not> fgt (flit (7 / 10)) (flit (80 / 100))"
    by (simp add: fgt_def flit_values flit_samples pow2_def)
  have c: "\<not> fgt (Finite True 1 0) (flit (5 / 100))"
    by (simp add: fgt_def flit_values pow2_def)
  have d: "height_to_char (flit (7 / 10)) = CHR ''#''"
    using height_to_char_glyphs [of "flit (7 / 10)"] a b by (elim conjE) (rule mp, assumption, rule conjI)
  have e: "height_to_char (Finite True 1 0) = CHR '' ''"
    using height_to_char_glyphs [of "Finite True 1 0"] c by (elim conjE) (rule mp)
  from a b c d e show ?thesis by (intro conjI)
qed

section \<open>Arrays and the loops of the step\<close>

lemma shaped_upd2: "shaped H W a \<Longrightarrow> shaped H W (upd2 a r c v)"
proof (cases "r < length a")
  case True
  assume "shaped H W a"
  with True show ?thesis
    by (auto simp: shaped_def upd2_def set_conv_nth nth_list_update)
next
  case False
  then have "upd2 a r c v = a"
    by (simp add: upd2_def list_update_beyond)
  moreover assume "shaped H W a"
  ultimately show ?thesis
    by simp
qed

lemma nth_upd2:
  "shaped H W a \<Longrightarrow> r' < H \<Longrightarrow> c' < W \<Longrightarrow>
   upd2 a r c v ! r' ! c' = (if r' = r \<and> c' = c then v else a ! r' ! c')"
proof -
  assume a: "shaped H W a" and r': "r' < H" and c': "c' < W"
  then have len: "length a = H" "length (a ! r') = W"
    by (simp_all add: shaped_def)
  show ?thesis
  proof (cases "r' = r")
    case True
    with len r' c' show ?thesis
      by (simp add: upd2_def nth_list_update)
  next
    case False
    then show ?thesis
      by (simp add: upd2_def)
  qed
qed

lemma shaped_eqI:
  assumes "shaped H W a" "shaped H W b"
    and "\<And>r c. r < H \<Longrightarrow> c < W \<Longrightarrow> a ! r ! c = b ! r ! c"
  shows "a = b"
proof (rule nth_equalityI)
  show "length a = length b" using assms by (simp add: shaped_def)
next
  fix r assume r: "r < length a"
  with assms have ra: "r < H" and la: "length (a ! r) = W" and lb: "length (b ! r) = W"
    by (auto simp: shaped_def)
  show "a ! r = b ! r"
    by (rule nth_equalityI) (use la lb ra assms(3) in auto)
qed

lemma step_cell_alt:
  "step_cell p r c g =
     g\<lparr>next_h := upd2 (next_h g) r c (written_h p g r c),
       next_vel := upd2 (next_vel g) r c (written_vel p g r c)\<rparr>"
  by (simp add: step_cell_def written_h_def written_vel_def)

lemma written_cong:
  assumes "h g' = h g" "vel g' = vel g" "obstacle g' = obstacle g"
    "WIDTH g' = WIDTH g" "HEIGHT g' = HEIGHT g"
  shows "written_h p g' r c = written_h p g r c" "written_vel p g' r c = written_vel p g r c"
  unfolding written_h_def written_vel_def cell_h_def cell_vel_def laplacian_h_def
  by (simp_all only: assms)

lemma step_cols_frame:
  "h (step_cols p r c g) = h g \<and> vel (step_cols p r c g) = vel g
   \<and> obstacle (step_cols p r c g) = obstacle g"
proof (induction p r c g rule: step_cols.induct)
  case (1 p r c g)
  show ?case
  proof (cases "c < WIDTH g")
    case True
    with 1 show ?thesis
      by (subst (1 2 3) step_cols.simps) (simp add: step_cell_alt)
  next
    case False
    then show ?thesis
      by (subst (1 2 3) step_cols.simps) simp
  qed
qed

lemma step_cols_next:
  assumes "shaped (HEIGHT g) (WIDTH g) (next_h g)" "shaped (HEIGHT g) (WIDTH g) (next_vel g)"
  shows "shaped (HEIGHT g) (WIDTH g) (next_h (step_cols p r c g))
    \<and> shaped (HEIGHT g) (WIDTH g) (next_vel (step_cols p r c g))
    \<and> (\<forall>r' c'. r' < HEIGHT g \<longrightarrow> c' < WIDTH g \<longrightarrow>
          next_h (step_cols p r c g) ! r' ! c' =
            (if r' = r \<and> c \<le> c' then written_h p g r c' else next_h g ! r' ! c')
        \<and> next_vel (step_cols p r c g) ! r' ! c' =
            (if r' = r \<and> c \<le> c' then written_vel p g r c' else next_vel g ! r' ! c'))"
  using assms
proof (induction p r c g rule: step_cols.induct)
  case (1 p r c g)
  show ?case
  proof (cases "c < WIDTH g")
    case False
    then show ?thesis using "1.prems"
      by (subst (1 2 3 4) step_cols.simps) auto
  next
    case True
    let ?g = "step_cell p r c g"
    have dims: "WIDTH ?g = WIDTH g" "HEIGHT ?g = HEIGHT g"
      by (simp_all add: step_cell_alt)
    have sh: "shaped (HEIGHT ?g) (WIDTH ?g) (next_h ?g)" "shaped (HEIGHT ?g) (WIDTH ?g) (next_vel ?g)"
      using "1.prems" by (simp_all add: step_cell_alt shaped_upd2)
    have fr: "written_h p ?g r c' = written_h p g r c'" "written_vel p ?g r c' = written_vel p g r c'" for c'
      by (rule written_cong; simp add: step_cell_alt)+
    note IH = "1.IH" [OF True sh, unfolded dims fr]
    have unf: "step_cols p r c g = step_cols p r (c + 1) ?g"
      using True by (subst step_cols.simps) simp
    have nh: "next_h ?g ! r' ! c' = (if r' = r \<and> c' = c then written_h p g r c else next_h g ! r' ! c')"
      if "r' < HEIGHT g" "c' < WIDTH g" for r' c'
      using that "1.prems" by (simp add: step_cell_alt nth_upd2)
    have nv: "next_vel ?g ! r' ! c' = (if r' = r \<and> c' = c then written_vel p g r c else next_vel g ! r' ! c')"
      if "r' < HEIGHT g" "c' < WIDTH g" for r' c'
      using that "1.prems" by (simp add: step_cell_alt nth_upd2)
    show ?thesis
      unfolding unf using IH nh nv by (auto simp: Suc_le_eq le_less)
  qed
qed


lemma step_rows_frame:
  "h (step_rows p r g) = h g \<and> vel (step_rows p r g) = vel g
   \<and> obstacle (step_rows p r g) = obstacle g
   \<and> WIDTH (step_rows p r g) = WIDTH g \<and> HEIGHT (step_rows p r g) = HEIGHT g"
proof (induction p r g rule: step_rows.induct)
  case (1 p r g)
  show ?case
  proof (cases "r < HEIGHT g")
    case True
    with 1 show ?thesis
      by (subst (1 2 3 4 5) step_rows.simps) (simp add: step_cols_frame)
  next
    case False
    then show ?thesis
      by (subst (1 2 3 4 5) step_rows.simps) simp
  qed
qed

lemma step_rows_next:
  assumes "shaped (HEIGHT g) (WIDTH g) (next_h g)" "shaped (HEIGHT g) (WIDTH g) (next_vel g)"
  shows "shaped (HEIGHT g) (WIDTH g) (next_h (step_rows p r g))
    \<and> shaped (HEIGHT g) (WIDTH g) (next_vel (step_rows p r g))
    \<and> (\<forall>r' c'. r' < HEIGHT g \<longrightarrow> c' < WIDTH g \<longrightarrow>
          next_h (step_rows p r g) ! r' ! c' =
            (if r \<le> r' then written_h p g r' c' else next_h g ! r' ! c')
        \<and> next_vel (step_rows p r g) ! r' ! c' =
            (if r \<le> r' then written_vel p g r' c' else next_vel g ! r' ! c'))"
  using assms
proof (induction p r g rule: step_rows.induct)
  case (1 p r g)
  show ?case
  proof (cases "r < HEIGHT g")
    case False
    then show ?thesis using "1.prems"
      by (subst (1 2 3 4) step_rows.simps) auto
  next
    case True
    let ?g = "step_cols p r 0 g"
    note cols = step_cols_next [OF "1.prems", of p r 0]
    have dims: "WIDTH ?g = WIDTH g" "HEIGHT ?g = HEIGHT g"
      by simp_all
    have sh: "shaped (HEIGHT ?g) (WIDTH ?g) (next_h ?g)" "shaped (HEIGHT ?g) (WIDTH ?g) (next_vel ?g)"
      using cols by simp_all
    have fr: "written_h p ?g r' c' = written_h p g r' c'"
      "written_vel p ?g r' c' = written_vel p g r' c'" for r' c'
      by (rule written_cong; simp add: step_cols_frame)+
    note IH = "1.IH" [OF True sh, unfolded dims fr]
    have unf: "step_rows p r g = step_rows p (r + 1) ?g"
      using True by (subst step_rows.simps) simp
    show ?thesis
      unfolding unf using IH cols by (auto simp: Suc_le_eq le_less)
  qed
qed

lemma simulation_step_dims [simp]:
  "WIDTH (simulation_step p g) = WIDTH g" "HEIGHT (simulation_step p g) = HEIGHT g"
  by (simp_all add: simulation_step_def Let_def step_rows_frame)

lemma simulation_step_obstacle [simp]: "obstacle (simulation_step p g) = obstacle g"
  by (simp add: simulation_step_def Let_def step_rows_frame)

lemma simulation_step_scratch:
  "next_h (simulation_step p g) = h g" "next_vel (simulation_step p g) = vel g"
  by (simp_all add: simulation_step_def Let_def step_rows_frame)

lemma simulation_step_cells:
  assumes "shaped (HEIGHT g) (WIDTH g) (next_h g)" "shaped (HEIGHT g) (WIDTH g) (next_vel g)"
    and "r < HEIGHT g" "c < WIDTH g"
  shows "h (simulation_step p g) ! r ! c = written_h p g r c"
    and "vel (simulation_step p g) ! r ! c = written_vel p g r c"
  using step_rows_next [OF assms(1,2), of p 0] assms(3,4)
  by (simp_all add: simulation_step_def Let_def)

lemma simulation_step_shaped:
  assumes "shaped (HEIGHT g) (WIDTH g) (next_h g)" "shaped (HEIGHT g) (WIDTH g) (next_vel g)"
  shows "shaped (HEIGHT g) (WIDTH g) (h (simulation_step p g))"
    and "shaped (HEIGHT g) (WIDTH g) (vel (simulation_step p g))"
  using step_rows_next [OF assms, of p 0]
  by (simp_all add: simulation_step_def Let_def)

lemma wf_grid_simulation_step: "wf_grid g \<Longrightarrow> wf_grid (simulation_step p g)"
  using simulation_step_shaped [of g p]
  by (simp add: wf_grid_def simulation_step_scratch)

section \<open>The scratch buffers\<close>

text \<open>
  C10. Two states with the same dimensions, heights, velocities and obstacles, whatever
  their \<^verbatim>\<open>next_h\<close> and \<^verbatim>\<open>next_vel\<close> hold, have the same heights and velocities after
  one \<^verbatim>\<open>simulation_step\<close>: the loops store into every cell of both buffers before the
  exchange.
\<close>

theorem step_ignores_scratch:
  assumes "wf_grid g1" "wf_grid g2"
    and "h g1 = h g2" "vel g1 = vel g2" "obstacle g1 = obstacle g2"
    and "WIDTH g1 = WIDTH g2" "HEIGHT g1 = HEIGHT g2"
  shows "h (simulation_step p g1) = h (simulation_step p g2)
    \<and> vel (simulation_step p g1) = vel (simulation_step p g2)"
proof -
  have s1: "shaped (HEIGHT g1) (WIDTH g1) (next_h g1)" "shaped (HEIGHT g1) (WIDTH g1) (next_vel g1)"
    and s2: "shaped (HEIGHT g2) (WIDTH g2) (next_h g2)" "shaped (HEIGHT g2) (WIDTH g2) (next_vel g2)"
    using assms(1,2) by (simp_all add: wf_grid_def)
  have w: "written_h p g1 r c = written_h p g2 r c" "written_vel p g1 r c = written_vel p g2 r c" for r c
    by (rule written_cong; simp add: assms)+
  have "h (simulation_step p g1) = h (simulation_step p g2)"
  proof (rule shaped_eqI)
    show "shaped (HEIGHT g1) (WIDTH g1) (h (simulation_step p g1))"
      by (rule simulation_step_shaped [OF s1])
    show "shaped (HEIGHT g1) (WIDTH g1) (h (simulation_step p g2))"
      using simulation_step_shaped(1) [OF s2] assms(6,7) by simp
    show "h (simulation_step p g1) ! r ! c = h (simulation_step p g2) ! r ! c"
      if "r < HEIGHT g1" "c < WIDTH g1" for r c
      using simulation_step_cells(1) [OF s1 that] simulation_step_cells(1) [OF s2, of r c] that assms(6,7) w
      by simp
  qed
  moreover have "vel (simulation_step p g1) = vel (simulation_step p g2)"
  proof (rule shaped_eqI)
    show "shaped (HEIGHT g1) (WIDTH g1) (vel (simulation_step p g1))"
      by (rule simulation_step_shaped [OF s1])
    show "shaped (HEIGHT g1) (WIDTH g1) (vel (simulation_step p g2))"
      using simulation_step_shaped(2) [OF s2] assms(6,7) by simp
    show "vel (simulation_step p g1) ! r ! c = vel (simulation_step p g2) ! r ! c"
      if "r < HEIGHT g1" "c < WIDTH g1" for r c
      using simulation_step_cells(2) [OF s1 that] simulation_step_cells(2) [OF s2, of r c] that assms(6,7) w
      by simp
  qed
  ultimately show ?thesis ..
qed

theorem step_ignores_scratch_witness:
  "wf_grid (pool (flit (1 / 2)) (replicate 3 (replicate 3 NaN)) (replicate 3 (replicate 3 (flit 1))))
   \<and> wf_grid (pool (flit (1 / 2)) (replicate 3 (replicate 3 (flit 0))) (replicate 3 (replicate 3 (flit 0))))
   \<and> replicate 3 (replicate 3 NaN) \<noteq> replicate 3 (replicate 3 (flit 0))
   \<and> h (simulation_step default_params
          (pool (flit (1 / 2)) (replicate 3 (replicate 3 NaN)) (replicate 3 (replicate 3 (flit 1)))))
     = h (simulation_step default_params
          (pool (flit (1 / 2)) (replicate 3 (replicate 3 (flit 0))) (replicate 3 (replicate 3 (flit 0)))))
   \<and> vel (simulation_step default_params
          (pool (flit (1 / 2)) (replicate 3 (replicate 3 NaN)) (replicate 3 (replicate 3 (flit 1)))))
     = vel (simulation_step default_params
          (pool (flit (1 / 2)) (replicate 3 (replicate 3 (flit 0))) (replicate 3 (replicate 3 (flit 0)))))"
proof -
  let ?g1 = "pool (flit (1 / 2)) (replicate 3 (replicate 3 NaN)) (replicate 3 (replicate 3 (flit 1)))"
  let ?g2 = "pool (flit (1 / 2)) (replicate 3 (replicate 3 (flit 0))) (replicate 3 (replicate 3 (flit 0)))"
  have w1: "wf_grid ?g1" and w2: "wf_grid ?g2"
    by (simp_all add: wf_grid_def shaped_def pool_def)
  have ne: "replicate 3 (replicate 3 NaN) \<noteq> replicate 3 (replicate 3 (flit 0))"
    by (simp add: flit_0 numeral_3_eq_3)
  have eqs: "h ?g1 = h ?g2" "vel ?g1 = vel ?g2" "obstacle ?g1 = obstacle ?g2"
    "WIDTH ?g1 = WIDTH ?g2" "HEIGHT ?g1 = HEIGHT ?g2"
    by (simp_all add: pool_def)
  note same = step_ignores_scratch [OF w1 w2 eqs, of default_params]
  show ?thesis
    by (intro conjI) (rule w1 w2 ne same [THEN conjunct1] same [THEN conjunct2])+
qed

lemma laplacian_h_spec:
  assumes "r < HEIGHT g" "c < WIDTH g"
  shows "laplacian_h g r c = spec_laplacian g r c"
proof -
  have up: "spec_neighbour g r c (- 1) 0 =
      (if 0 < r \<and> obstacle g ! (r - 1) ! c = 0 then h g ! (r - 1) ! c else h g ! r ! c)"
    using assms by (auto simp: spec_neighbour_def Let_def nat_diff_distrib)
  have down: "spec_neighbour g r c 1 0 =
      (if r < HEIGHT g - 1 \<and> obstacle g ! (r + 1) ! c = 0 then h g ! (r + 1) ! c else h g ! r ! c)"
    using assms by (auto simp: spec_neighbour_def Let_def nat_add_distrib)
  have left: "spec_neighbour g r c 0 (- 1) =
      (if 0 < c \<and> obstacle g ! r ! (c - 1) = 0 then h g ! r ! (c - 1) else h g ! r ! c)"
    using assms by (auto simp: spec_neighbour_def Let_def nat_diff_distrib)
  have right: "spec_neighbour g r c 0 1 =
      (if c < WIDTH g - 1 \<and> obstacle g ! r ! (c + 1) = 0 then h g ! r ! (c + 1) else h g ! r ! c)"
    using assms by (auto simp: spec_neighbour_def Let_def nat_add_distrib)
  show ?thesis
    unfolding laplacian_h_def spec_laplacian_def Let_def up down left right ..
qed

section \<open>One step, cell by cell\<close>

text \<open>
  C1. For a cell \<open>(r, c)\<close> of the domain that is no obstacle, one \<^verbatim>\<open>simulation_step\<close>
  leaves the velocity \<open>(v + waveSpeedSq * L * dt) * (1 - damping * dt)\<close> and the height
  \<open>h + v' * dt\<close> clamped to \<open>[0, 1]\<close>, where \<open>L\<close> adds the four neighbour heights and
  subtracts four times the cell's own; a neighbour outside the domain or in an obstacle
  is replaced by the cell's own height; everything is read from the arrays as they were
  before the step.
\<close>

theorem simulation_step_cell:
  assumes "wf_grid g" "r < HEIGHT g" "c < WIDTH g" "obstacle g ! r ! c = 0"
  shows "vel (simulation_step p g) ! r ! c = spec_velocity p g r c
    \<and> h (simulation_step p g) ! r ! c =
        clamp01 (fadd (h g ! r ! c) (fmul (spec_velocity p g r c) (G_DT p)))"
proof -
  have sh: "shaped (HEIGHT g) (WIDTH g) (next_h g)" "shaped (HEIGHT g) (WIDTH g) (next_vel g)"
    using assms(1) by (simp_all add: wf_grid_def)
  have v: "cell_vel p g r c = spec_velocity p g r c"
    unfolding cell_vel_def spec_velocity_def Let_def laplacian_h_spec [OF assms(2,3)] ..
  have "vel (simulation_step p g) ! r ! c = cell_vel p g r c"
    using simulation_step_cells(2) [OF sh assms(2,3), of p] assms(4) by (simp add: written_vel_def)
  moreover have "h (simulation_step p g) ! r ! c = cell_h p g r c"
    using simulation_step_cells(1) [OF sh assms(2,3), of p] assms(4) by (simp add: written_h_def)
  moreover have "cell_h p g r c = clamp01 (fadd (h g ! r ! c) (fmul (spec_velocity p g r c) (G_DT p)))"
    unfolding cell_h_def clamp01_def Let_def v ..
  ultimately show ?thesis using v by simp
qed

lemma pool_wf: "wf_grid (pool x (replicate 3 (replicate 3 y)) (replicate 3 (replicate 3 z)))"
  by (simp add: wf_grid_def shaped_def pool_def)

theorem simulation_step_cell_witness:
  "wf_grid (pool (flit (1 / 2)) (replicate 3 (replicate 3 NaN)) (replicate 3 (replicate 3 NaN)))
   \<and> (1::nat) < HEIGHT (pool (flit (1 / 2)) (replicate 3 (replicate 3 NaN)) (replicate 3 (replicate 3 NaN)))
   \<and> (1::nat) < WIDTH (pool (flit (1 / 2)) (replicate 3 (replicate 3 NaN)) (replicate 3 (replicate 3 NaN)))
   \<and> obstacle (pool (flit (1 / 2)) (replicate 3 (replicate 3 NaN)) (replicate 3 (replicate 3 NaN))) ! 1 ! 1 = 0
   \<and> vel (simulation_step default_params
        (pool (flit (1 / 2)) (replicate 3 (replicate 3 NaN)) (replicate 3 (replicate 3 NaN)))) ! 1 ! 1
      = flit 0
   \<and> h (simulation_step default_params
        (pool (flit (1 / 2)) (replicate 3 (replicate 3 NaN)) (replicate 3 (replicate 3 NaN)))) ! 1 ! 1
      = flit (1 / 2)"
proof -
  let ?g = "pool (flit (1 / 2)) (replicate 3 (replicate 3 NaN)) (replicate 3 (replicate 3 NaN))"
  have w: "wf_grid ?g" by (rule pool_wf)
  have d: "(1::nat) < HEIGHT ?g" "(1::nat) < WIDTH ?g" "obstacle ?g ! 1 ! 1 = 0"
    by (simp_all add: pool_def)
  have nb: "spec_neighbour ?g 1 1 (- 1) 0 = flit (1 / 2)" "spec_neighbour ?g 1 1 1 0 = flit (1 / 2)"
    "spec_neighbour ?g 1 1 0 (- 1) = flit (1 / 2)" "spec_neighbour ?g 1 1 0 1 = flit (1 / 2)"
    and hc: "h ?g ! 1 ! 1 = flit (1 / 2)"
    by (simp_all add: spec_neighbour_def pool_def)
  have lap: "spec_laplacian ?g 1 1 = flit 0"
    unfolding spec_laplacian_def nb hc by (simp add: float_eval)
  have sv: "spec_velocity default_params ?g 1 1 = flit 0"
    unfolding spec_velocity_def lap
    by (simp add: pool_def default_params_def float_eval)
  have sh: "clamp01 (fadd (h ?g ! 1 ! 1) (fmul (spec_velocity default_params ?g 1 1) (G_DT default_params))) = flit (1 / 2)"
    unfolding sv hc
    by (simp add: clamp01_def fmaxf_def fminf_def fge_def fgt_def pool_def default_params_def float_eval)
  note k = simulation_step_cell [OF w d, of default_params]
  have kv: "vel (simulation_step default_params ?g) ! 1 ! 1 = flit 0"
    using k [THEN conjunct1] sv by (rule trans)
  have kh: "h (simulation_step default_params ?g) ! 1 ! 1 = flit (1 / 2)"
    using k [THEN conjunct2] sh by (rule trans)
  show ?thesis
    by (intro conjI) (rule w d kv kh)+
qed

section \<open>The loops of the initialisation\<close>

lemma init_cell_alt:
  "init_cell p r c g =
     g\<lparr>obstacle := upd2 (obstacle g) r c (if border (WIDTH g) (HEIGHT g) r c then 1 else 0),
       h := upd2 (h g) r c (init_h p (WIDTH g) (HEIGHT g) r c),
       vel := upd2 (vel g) r c (flit 0)\<rparr>"
  by (simp add: init_cell_def init_h_def border_def)

lemma init_cols_frame:
  "next_h (init_cols p r c g) = next_h g \<and> next_vel (init_cols p r c g) = next_vel g"
proof (induction p r c g rule: init_cols.induct)
  case (1 p r c g)
  show ?case
  proof (cases "c < WIDTH g")
    case True
    with 1 show ?thesis
      by (subst (1 2) init_cols.simps) (simp add: init_cell_alt)
  next
    case False
    then show ?thesis
      by (subst (1 2) init_cols.simps) simp
  qed
qed

lemma init_cols_cells:
  assumes "shaped (HEIGHT g) (WIDTH g) (h g)" "shaped (HEIGHT g) (WIDTH g) (vel g)"
    "shaped (HEIGHT g) (WIDTH g) (obstacle g)"
  shows "shaped (HEIGHT g) (WIDTH g) (h (init_cols p r c g))
    \<and> shaped (HEIGHT g) (WIDTH g) (vel (init_cols p r c g))
    \<and> shaped (HEIGHT g) (WIDTH g) (obstacle (init_cols p r c g))
    \<and> (\<forall>r' c'. r' < HEIGHT g \<longrightarrow> c' < WIDTH g \<longrightarrow>
          h (init_cols p r c g) ! r' ! c' =
            (if r' = r \<and> c \<le> c' then init_h p (WIDTH g) (HEIGHT g) r c' else h g ! r' ! c')
        \<and> vel (init_cols p r c g) ! r' ! c' =
            (if r' = r \<and> c \<le> c' then flit 0 else vel g ! r' ! c')
        \<and> obstacle (init_cols p r c g) ! r' ! c' =
            (if r' = r \<and> c \<le> c' then (if border (WIDTH g) (HEIGHT g) r c' then 1 else 0)
             else obstacle g ! r' ! c'))"
  using assms
proof (induction p r c g rule: init_cols.induct)
  case (1 p r c g)
  show ?case
  proof (cases "c < WIDTH g")
    case False
    then show ?thesis using "1.prems"
      by (subst (1 2 3 4 5 6) init_cols.simps) auto
  next
    case True
    let ?g = "init_cell p r c g"
    have dims: "WIDTH ?g = WIDTH g" "HEIGHT ?g = HEIGHT g"
      by (simp_all add: init_cell_alt)
    have sh: "shaped (HEIGHT ?g) (WIDTH ?g) (h ?g)" "shaped (HEIGHT ?g) (WIDTH ?g) (vel ?g)"
      "shaped (HEIGHT ?g) (WIDTH ?g) (obstacle ?g)"
      using "1.prems" by (simp_all add: init_cell_alt shaped_upd2)
    note IH = "1.IH" [OF True sh, unfolded dims]
    have unf: "init_cols p r c g = init_cols p r (c + 1) ?g"
      using True by (subst init_cols.simps) simp
    have nh: "h ?g ! r' ! c' =
        (if r' = r \<and> c' = c then init_h p (WIDTH g) (HEIGHT g) r c else h g ! r' ! c')"
      and nv: "vel ?g ! r' ! c' = (if r' = r \<and> c' = c then flit 0 else vel g ! r' ! c')"
      and no: "obstacle ?g ! r' ! c' =
        (if r' = r \<and> c' = c then (if border (WIDTH g) (HEIGHT g) r c then 1 else 0)
         else obstacle g ! r' ! c')"
      if "r' < HEIGHT g" "c' < WIDTH g" for r' c'
      using that "1.prems" by (simp_all add: init_cell_alt nth_upd2)
    show ?thesis
      unfolding unf using IH nh nv no by (auto simp: Suc_le_eq le_less)
  qed
qed

lemma init_rows_frame:
  "next_h (init_rows p r g) = next_h g \<and> next_vel (init_rows p r g) = next_vel g
   \<and> WIDTH (init_rows p r g) = WIDTH g \<and> HEIGHT (init_rows p r g) = HEIGHT g"
proof (induction p r g rule: init_rows.induct)
  case (1 p r g)
  show ?case
  proof (cases "r < HEIGHT g")
    case True
    with 1 show ?thesis
      by (subst (1 2 3 4) init_rows.simps) (simp add: init_cols_frame)
  next
    case False
    then show ?thesis
      by (subst (1 2 3 4) init_rows.simps) simp
  qed
qed

lemma init_rows_cells:
  assumes "shaped (HEIGHT g) (WIDTH g) (h g)" "shaped (HEIGHT g) (WIDTH g) (vel g)"
    "shaped (HEIGHT g) (WIDTH g) (obstacle g)"
  shows "shaped (HEIGHT g) (WIDTH g) (h (init_rows p r g))
    \<and> shaped (HEIGHT g) (WIDTH g) (vel (init_rows p r g))
    \<and> shaped (HEIGHT g) (WIDTH g) (obstacle (init_rows p r g))
    \<and> (\<forall>r' c'. r' < HEIGHT g \<longrightarrow> c' < WIDTH g \<longrightarrow>
          h (init_rows p r g) ! r' ! c' =
            (if r \<le> r' then init_h p (WIDTH g) (HEIGHT g) r' c' else h g ! r' ! c')
        \<and> vel (init_rows p r g) ! r' ! c' = (if r \<le> r' then flit 0 else vel g ! r' ! c')
        \<and> obstacle (init_rows p r g) ! r' ! c' =
            (if r \<le> r' then (if border (WIDTH g) (HEIGHT g) r' c' then 1 else 0)
             else obstacle g ! r' ! c'))"
  using assms
proof (induction p r g rule: init_rows.induct)
  case (1 p r g)
  show ?case
  proof (cases "r < HEIGHT g")
    case False
    then show ?thesis using "1.prems"
      by (subst (1 2 3 4 5 6) init_rows.simps) auto
  next
    case True
    let ?g = "init_cols p r 0 g"
    note cols = init_cols_cells [OF "1.prems", of p r 0]
    have dims: "WIDTH ?g = WIDTH g" "HEIGHT ?g = HEIGHT g"
      by simp_all
    have sh: "shaped (HEIGHT ?g) (WIDTH ?g) (h ?g)" "shaped (HEIGHT ?g) (WIDTH ?g) (vel ?g)"
      "shaped (HEIGHT ?g) (WIDTH ?g) (obstacle ?g)"
      using cols by simp_all
    note IH = "1.IH" [OF True sh, unfolded dims]
    have unf: "init_rows p r g = init_rows p (r + 1) ?g"
      using True by (subst init_rows.simps) simp
    show ?thesis
      unfolding unf using IH cols by (auto simp: Suc_le_eq le_less)
  qed
qed

lemma initialize_simulation_frame:
  "next_h (initialize_simulation p g) = next_h g"
  "next_vel (initialize_simulation p g) = next_vel g"
  "WIDTH (initialize_simulation p g) = WIDTH g"
  "HEIGHT (initialize_simulation p g) = HEIGHT g"
  by (simp_all add: initialize_simulation_def Let_def init_rows_frame)

lemma centre_interior:
  "2 < H \<Longrightarrow> 2 < W \<Longrightarrow> \<not> border W H (H div 2) (W div 2) \<and> H div 2 < H \<and> W div 2 < W"
  by (auto simp: border_def)

lemma initialize_simulation_cells:
  assumes "wf_grid g" "r < HEIGHT g" "c < WIDTH g"
  shows "obstacle (initialize_simulation p g) ! r ! c
           = (if border (WIDTH g) (HEIGHT g) r c then 1 else 0)"
    and "vel (initialize_simulation p g) ! r ! c = flit 0"
    and "h (initialize_simulation p g) ! r ! c =
           (if disturbed p (WIDTH g) (HEIGHT g) \<and> r = HEIGHT g div 2 \<and> c = WIDTH g div 2
            then bump p else init_h p (WIDTH g) (HEIGHT g) r c)"
    and "wf_grid (initialize_simulation p g)"
proof -
  have sh: "shaped (HEIGHT g) (WIDTH g) (h g)" "shaped (HEIGHT g) (WIDTH g) (vel g)"
    "shaped (HEIGHT g) (WIDTH g) (obstacle g)"
    using assms(1) by (simp_all add: wf_grid_def)
  note rows = init_rows_cells [OF sh, of p 0]
  let ?g = "init_rows p 0 g"
  have dims: "WIDTH ?g = WIDTH g" "HEIGHT ?g = HEIGHT g"
    by (simp_all add: init_rows_frame)
  have centre: "obstacle ?g ! (HEIGHT g div 2) ! (WIDTH g div 2) = 0"
    if "2 < HEIGHT g" "2 < WIDTH g"
    using rows centre_interior [OF that] by simp
  have init: "initialize_simulation p g =
      (if disturbed p (WIDTH g) (HEIGHT g)
       then ?g\<lparr>h := upd2 (h ?g) (HEIGHT g div 2) (WIDTH g div 2) (bump p)\<rparr> else ?g)"
    using centre by (auto simp: initialize_simulation_def Let_def dims disturbed_def bump_def)
  show "obstacle (initialize_simulation p g) ! r ! c
           = (if border (WIDTH g) (HEIGHT g) r c then 1 else 0)"
    using rows assms(2,3) by (simp add: init)
  show "vel (initialize_simulation p g) ! r ! c = flit 0"
    using rows assms(2,3) by (simp add: init)
  have hs: "shaped (HEIGHT g) (WIDTH g) (h ?g)" using rows by simp
  show "h (initialize_simulation p g) ! r ! c =
           (if disturbed p (WIDTH g) (HEIGHT g) \<and> r = HEIGHT g div 2 \<and> c = WIDTH g div 2
            then bump p else init_h p (WIDTH g) (HEIGHT g) r c)"
    using rows assms(2,3) by (simp add: init nth_upd2 [OF hs])
  show "wf_grid (initialize_simulation p g)"
    using rows assms(1) shaped_upd2 [OF hs]
    by (simp add: init wf_grid_def dims init_rows_frame)
qed


section \<open>Clamping, and rounds of the main loop\<close>


lemma in01_clamp01: "in01 (clamp01 x)"
proof (cases x)
  case (Finite s m e)
  then show ?thesis
    by (auto simp: in01_def clamp01_def fmaxf_def fminf_def fge_def fgt_def flit_values flit_0 pow2_def)
next
  case (Infinity s)
  then show ?thesis
    by (auto simp: in01_def clamp01_def fmaxf_def fminf_def fge_def fgt_def flit_values flit_0 pow2_def)
next
  case NaN
  then show ?thesis
    by (auto simp: in01_def clamp01_def fmaxf_def fminf_def fge_def fgt_def flit_values flit_0 pow2_def)
qed

lemma rne_nonneg: "0 \<le> x \<Longrightarrow> 0 \<le> rne x"
  by (simp add: rne_def)

lemma pow2_pos [simp]: "0 < pow2 e"
  by (simp add: pow2_def)

lemma round_float_pos:
  assumes "0 < x"
  shows "round_float zs x = Infinity False \<or> (\<exists>m e. round_float zs x = Finite False m e \<and> 0 \<le> m)"
proof -
  have "0 \<le> rne (\<bar>x\<bar> / pow2 (max (- 149) (ilog2 \<bar>x\<bar> - 23)))"
    by (intro rne_nonneg divide_nonneg_pos) simp_all
  with assms show ?thesis
    by (simp add: round_float_eval)
qed

lemma in01_bump:
  assumes "\<not> flt (G_INITIAL_WATER_LEVEL p) (flit 0)" "\<not> fgt (G_INITIAL_WATER_LEVEL p) (flit 1)"
  shows "in01 (bump p)"
proof (cases "G_INITIAL_WATER_LEVEL p")
  case NaN
  then show ?thesis
    by (simp add: bump_def in01_def fminf_def fgt_def flit_values flit_0 pow2_def)
next
  case (Infinity s)
  with assms show ?thesis
    by (cases s) (simp_all add: fgt_def flit_values flit_0)
next
  case (Finite s m e)
  with assms(1) have nonneg: "0 \<le> valof (Finite s m e)"
    by (simp add: flit_0)
  have "0 < valof (Finite s m e) + valof (flit (4 / 10))"
    using nonneg by (simp add: flit_values pow2_def)
  from round_float_pos [OF this, of "False"]
  have "fadd (Finite s m e) (flit (4 / 10)) = Infinity False
      \<or> (\<exists>m' e'. fadd (Finite s m e) (flit (4 / 10)) = Finite False m' e' \<and> 0 \<le> m')"
    by (simp add: flit_values)
  then show ?thesis
  proof (elim disjE exE conjE)
    assume "fadd (Finite s m e) (flit (4 / 10)) = Infinity False"
    then show ?thesis
      by (simp add: bump_def Finite in01_def fminf_def flit_values flit_0 pow2_def)
  next
    fix m' e'
    assume "fadd (Finite s m e) (flit (4 / 10)) = Finite False m' e'" "0 \<le> m'"
    then show ?thesis
      by (auto simp: bump_def Finite in01_def fminf_def fgt_def flit_values flit_0 pow2_def)
  qed
qed


lemma simulate_Suc_right: "simulate p (Suc n) g = simulation_step p (simulate p n g)"
  by (induction n arbitrary: g) simp_all

lemma simulate_frame:
  "WIDTH (simulate p n g) = WIDTH g \<and> HEIGHT (simulate p n g) = HEIGHT g
   \<and> obstacle (simulate p n g) = obstacle g"
  by (induction n arbitrary: g) simp_all

lemma wf_grid_simulate: "wf_grid g \<Longrightarrow> wf_grid (simulate p n g)"
  by (induction n arbitrary: g) (simp_all add: wf_grid_simulation_step)

lemma simulation_step_walls:
  assumes "wf_grid g" "r < HEIGHT g" "c < WIDTH g" "obstacle g ! r ! c \<noteq> 0"
  shows "h (simulation_step p g) ! r ! c = flit 0" "vel (simulation_step p g) ! r ! c = flit 0"
proof -
  have sh: "shaped (HEIGHT g) (WIDTH g) (next_h g)" "shaped (HEIGHT g) (WIDTH g) (next_vel g)"
    using assms(1) by (simp_all add: wf_grid_def)
  show "h (simulation_step p g) ! r ! c = flit 0"
    using simulation_step_cells(1) [OF sh assms(2,3), of p] assms(4) by (simp add: written_h_def)
  show "vel (simulation_step p g) ! r ! c = flit 0"
    using simulation_step_cells(2) [OF sh assms(2,3), of p] assms(4) by (simp add: written_vel_def)
qed

lemma cell_h_clamp01: "\<exists>x. cell_h p g r c = clamp01 x"
  by (auto simp: cell_h_def clamp01_def Let_def)

lemma simulation_step_in01:
  assumes "wf_grid g" "r < HEIGHT g" "c < WIDTH g" "obstacle g ! r ! c = 0"
  shows "in01 (h (simulation_step p g) ! r ! c)"
proof -
  have sh: "shaped (HEIGHT g) (WIDTH g) (next_h g)" "shaped (HEIGHT g) (WIDTH g) (next_vel g)"
    using assms(1) by (simp_all add: wf_grid_def)
  have "h (simulation_step p g) ! r ! c = cell_h p g r c"
    using simulation_step_cells(1) [OF sh assms(2,3), of p] assms(4) by (simp add: written_h_def)
  then show ?thesis
    using cell_h_clamp01 [of p g r c] by (auto simp: in01_clamp01)
qed

lemma tilt_height_clamp01: "\<exists>x. tilt_height p W c = clamp01 x"
  by (auto simp: tilt_height_def clamp01_def Let_def)

lemma validate_level:
  "validate p = None \<Longrightarrow>
   \<not> flt (G_INITIAL_WATER_LEVEL p) (flit 0) \<and> \<not> fgt (G_INITIAL_WATER_LEVEL p) (flit 1)"
  by (simp add: validate_def split: if_splits)

section \<open>Walls\<close>

text \<open>
  C3. After \<^verbatim>\<open>initialize_simulation\<close> and after any number of rounds of the main loop,
  every cell of the first or last row or column is an obstacle with height 0 and
  velocity 0, every obstacle cell has height 0 and velocity 0, and the obstacle array is
  the one the initialisation left.
\<close>

theorem walls_stay_dry:
  assumes "wf_grid g0" "r < HEIGHT g0" "c < WIDTH g0"
  shows "obstacle (simulate p n (initialize_simulation p g0)) = obstacle (initialize_simulation p g0)
    \<and> (border (WIDTH g0) (HEIGHT g0) r c \<longrightarrow>
          obstacle (simulate p n (initialize_simulation p g0)) ! r ! c = 1
        \<and> h (simulate p n (initialize_simulation p g0)) ! r ! c = flit 0
        \<and> vel (simulate p n (initialize_simulation p g0)) ! r ! c = flit 0)
    \<and> (obstacle (simulate p n (initialize_simulation p g0)) ! r ! c \<noteq> 0 \<longrightarrow>
          h (simulate p n (initialize_simulation p g0)) ! r ! c = flit 0
        \<and> vel (simulate p n (initialize_simulation p g0)) ! r ! c = flit 0)"
proof -
  let ?gi = "initialize_simulation p g0"
  let ?g = "simulate p n ?gi"
  note init = initialize_simulation_cells [OF assms, of p]
  have dims: "WIDTH ?gi = WIDTH g0" "HEIGHT ?gi = HEIGHT g0"
    by (simp_all add: initialize_simulation_frame)
  have ob: "obstacle ?g = obstacle ?gi"
    by (simp add: simulate_frame)
  have wall: "obstacle ?gi ! r ! c \<noteq> 0 \<longleftrightarrow> border (WIDTH g0) (HEIGHT g0) r c"
    using init(1) by simp
  have zero: "h ?g ! r ! c = flit 0 \<and> vel ?g ! r ! c = flit 0"
    if b: "border (WIDTH g0) (HEIGHT g0) r c"
  proof (cases n)
    case 0
    have "\<not> (disturbed p (WIDTH g0) (HEIGHT g0) \<and> r = HEIGHT g0 div 2 \<and> c = WIDTH g0 div 2)"
      using b centre_interior [of "HEIGHT g0" "WIDTH g0"] by (auto simp: disturbed_def)
    with init(2,3) b 0 show ?thesis
      by (simp add: init_h_def)
  next
    case (Suc k)
    let ?gk = "simulate p k ?gi"
    have "wf_grid ?gk"
      by (intro wf_grid_simulate init(4))
    moreover have "r < HEIGHT ?gk" "c < WIDTH ?gk" "obstacle ?gk ! r ! c \<noteq> 0"
      using assms(2,3) b wall by (simp_all add: simulate_frame dims)
    ultimately show ?thesis
      unfolding Suc simulate_Suc_right by (simp add: simulation_step_walls)
  qed
  show ?thesis
    using ob wall zero init(1) by auto
qed

theorem walls_stay_dry_witness:
  "wf_grid (allocate_grids 3 3) \<and> (0::nat) < HEIGHT (allocate_grids 3 3)
   \<and> (0::nat) < WIDTH (allocate_grids 3 3) \<and> border 3 3 0 0
   \<and> obstacle (simulate default_params 2 (initialize_simulation default_params (allocate_grids 3 3))) ! 0 ! 0 = 1
   \<and> h (simulate default_params 2 (initialize_simulation default_params (allocate_grids 3 3))) ! 0 ! 0 = flit 0
   \<and> vel (simulate default_params 2 (initialize_simulation default_params (allocate_grids 3 3))) ! 0 ! 0 = flit 0"
proof -
  have w: "wf_grid (allocate_grids 3 3)"
    by (simp add: wf_grid_def shaped_def allocate_grids_def)
  have d: "(0::nat) < HEIGHT (allocate_grids 3 3)" "(0::nat) < WIDTH (allocate_grids 3 3)"
    by (simp_all add: allocate_grids_def)
  have b: "border 3 3 0 0"
    by (simp add: border_def)
  have b': "border (WIDTH (allocate_grids 3 3)) (HEIGHT (allocate_grids 3 3)) 0 0"
    by (simp add: border_def)
  note k = walls_stay_dry [OF w d, of default_params 2, THEN conjunct2, THEN conjunct1, THEN mp, OF b']
  show ?thesis
    by (intro conjI) (rule w d b k [THEN conjunct1] k [THEN conjunct2, THEN conjunct1]
        k [THEN conjunct2, THEN conjunct2])+
qed

section \<open>Heights stay between 0 and 1\<close>

lemma in_range_validated:
  assumes "validate p = None" "wf_grid g0" "r < HEIGHT g0" "c < WIDTH g0"
    and "obstacle (simulate p n (initialize_simulation p g0)) ! r ! c = 0"
  shows "in01 (h (simulate p n (initialize_simulation p g0)) ! r ! c)"
proof -
  let ?gi = "initialize_simulation p g0"
  note init = initialize_simulation_cells [OF assms(2,3,4), of p]
  have dims: "WIDTH ?gi = WIDTH g0" "HEIGHT ?gi = HEIGHT g0"
    by (simp_all add: initialize_simulation_frame)
  have water: "obstacle ?gi ! r ! c = 0"
    using assms(5) by (simp add: simulate_frame)
  show ?thesis
  proof (cases n)
    case 0
    have "\<not> border (WIDTH g0) (HEIGHT g0) r c"
      using water init(1) by (simp split: if_splits)
    then have "h ?gi ! r ! c = bump p \<or> h ?gi ! r ! c = tilt_height p (WIDTH g0) c"
      using init(3) by (simp add: init_h_def split: if_splits)
    moreover have "in01 (bump p)"
      using validate_level [OF assms(1)] by (simp add: in01_bump)
    moreover have "in01 (tilt_height p (WIDTH g0) c)"
      using tilt_height_clamp01 [of p "WIDTH g0" c] by (auto simp: in01_clamp01)
    ultimately show ?thesis
      using 0 by auto
  next
    case (Suc k)
    let ?gk = "simulate p k ?gi"
    have "wf_grid ?gk"
      by (intro wf_grid_simulate init(4))
    moreover have "r < HEIGHT ?gk" "c < WIDTH ?gk" "obstacle ?gk ! r ! c = 0"
      using assms(3,4) water by (simp_all add: simulate_frame dims)
    ultimately show ?thesis
      unfolding Suc simulate_Suc_right by (rule simulation_step_in01)
  qed
qed

lemma validate_default: "validate default_params = None"
  by (simp add: validate_def default_params_def float_eval fgt_def)

section \<open>The command line\<close>

lemma parse_args_list: "parse_args atof atoi argv k p = parse_list atof atoi (drop k argv) p"
proof (induction atof atoi argv k p rule: parse_args.induct)
  case (1 atof atoi argv k p)
  show ?case
  proof (cases "k < length argv")
    case False
    then show ?thesis
      by (subst parse_args.simps) simp
  next
    case k: True
    show ?thesis
    proof (cases "k + 1 < length argv")
      case False
      with k have d: "drop k argv = [argv ! k]"
        by (metis Cons_nth_drop_Suc Suc_eq_plus1 drop_all not_less)
      show ?thesis
        using k False
        by (subst parse_args.simps) (simp add: d value_option_def help_flag_def)
    next
      case True
      with k have d: "drop k argv = argv ! k # argv ! (k + 1) # drop (k + 2) argv"
        by (metis Cons_nth_drop_Suc Suc_eq_plus1 add_2_eq_Suc')
      show ?thesis
        using k True 1
        by (subst parse_args.simps) (simp add: d value_option_def help_flag_def set_option_def)
    qed
  qed
qed

lemma parse_list_options:
  "list_all (\<lambda>(a, v). value_option a) ps \<Longrightarrow>
   parse_list atof atoi (options ps @ rest) p = parse_list atof atoi rest (set_options atof atoi ps p)"
  by (induction ps arbitrary: p) auto

lemma main_parse:
  "parse_args atof atoi (prog # args) 1 default_params = parse_list atof atoi args default_params"
  by (simp add: parse_args_list)


lemma wf_grid_allocate: "wf_grid (allocate_grids W H)"
  by (simp add: wf_grid_def shaped_def allocate_grids_def)

lemma main_eq:
  "main atof atoi (prog # args) ws =
     (case parse_list atof atoi args default_params of
        Inl (out, status) \<Rightarrow> Exited out status
      | Inr p \<Rightarrow>
          (case validate p of
             Some err \<Rightarrow> Exited [err] 1
           | None \<Rightarrow>
               Simulating
                 ((if fgt (fmul (fmul (G_WAVE_SPEED_SQ p) (G_DT p)) (G_DT p)) (flit (5 / 10))
                   then [StabilityWarning] else [])
                  @ (if fst (get_terminal_size ws) < 10 \<or> snd (get_terminal_size ws) < 5
                     then [TerminalTooSmall] else [])
                  @ [Banner]
                  @ (if fgt (fmul (fmul (G_WAVE_SPEED_SQ p) (G_DT p)) (G_DT p)) (flit (5 / 10))
                     then [InstabilityNotice] else []))
                 p
                 (initialize_simulation p
                    (allocate_grids (nat (fst (domain_size (get_terminal_size ws))))
                       (nat (snd (domain_size (get_terminal_size ws))))))))"
  unfolding main_def main_parse Let_def
  by (simp add: split_beta split: sum.splits option.splits prod.splits)

lemma main_Simulating:
  assumes "main atof atoi argv ws = Simulating out p g"
  shows "validate p = None \<and> (\<exists>W H. g = initialize_simulation p (allocate_grids W H))"
  using assms
  by (auto simp: main_def Let_def split_beta split: sum.splits option.splits prod.splits)

lemma validate_None:
  "validate q = None \<longleftrightarrow>
     \<not> (fle (G_DT q) (float_of_int 0) \<or> fle (G_WAVE_SPEED_SQ q) (float_of_int 0)
        \<or> flt (G_DAMPING q) (flit 0)
        \<or> flt (G_INITIAL_WATER_LEVEL q) (flit 0) \<or> fgt (G_INITIAL_WATER_LEVEL q) (flit 1)
        \<or> flt (G_INITIAL_TILT q) (flit 0) \<or> fgt (G_INITIAL_TILT q) (flit 1)
        \<or> G_SLEEP_MS q < 0)"
  by (simp add: validate_def)

lemma validate_Some:
  "validate q = Some err \<Longrightarrow>
   err \<in> set [ErrorDt, ErrorSpeedSq, ErrorDamping, ErrorLevel, ErrorTilt, ErrorSleep]"
  by (auto simp: validate_def split: if_splits)

text \<open>
  C8, as the code has it. The arguments are read from left to right and the first one that
  ends the run decides: after any options that have their values, a help flag prints the
  usage and exits with status 0, an unknown option prints the usage and exits with status
  1, and an option whose value is missing prints the usage and exits with status 1. When
  all arguments are options with values, the checks are made in the order \<^verbatim>\<open>dt <= 0\<close>,
  \<^verbatim>\<open>speed_sq <= 0\<close>, \<^verbatim>\<open>damping < 0\<close>, level below 0 or above 1, tilt below 0 or above 1,
  \<^verbatim>\<open>sleep < 0\<close>, and the first that fails ends the run with its own diagnostic and status
  1. When none fails the simulation starts, with the stability warning exactly when
  \<open>speed_sq * dt * dt > 0.5f\<close>.
\<close>

theorem main_outcomes:
  assumes "list_all (\<lambda>(a, v). value_option a) ps"
    and "q = set_options atof atoi ps default_params"
  shows "(help_flag x \<longrightarrow> main atof atoi (prog # options ps @ x # rest) ws = Exited [Usage] 0)
    \<and> (\<not> value_option x \<and> \<not> help_flag x \<longrightarrow>
          main atof atoi (prog # options ps @ x # rest) ws = Exited [UnknownOption x, Usage] 1)
    \<and> (value_option x \<longrightarrow> main atof atoi (prog # options ps @ [x]) ws = Exited [Usage] 1)
    \<and> (fle (G_DT q) (float_of_int 0) \<longrightarrow>
          main atof atoi (prog # options ps) ws = Exited [ErrorDt] 1)
    \<and> (\<not> fle (G_DT q) (float_of_int 0)
        \<and> fle (G_WAVE_SPEED_SQ q) (float_of_int 0) \<longrightarrow>
          main atof atoi (prog # options ps) ws = Exited [ErrorSpeedSq] 1)
    \<and> (\<not> fle (G_DT q) (float_of_int 0)
        \<and> \<not> fle (G_WAVE_SPEED_SQ q) (float_of_int 0)
        \<and> flt (G_DAMPING q) (flit 0) \<longrightarrow>
          main atof atoi (prog # options ps) ws = Exited [ErrorDamping] 1)
    \<and> (\<not> fle (G_DT q) (float_of_int 0)
        \<and> \<not> fle (G_WAVE_SPEED_SQ q) (float_of_int 0)
        \<and> \<not> flt (G_DAMPING q) (flit 0)
        \<and> (flt (G_INITIAL_WATER_LEVEL q) (flit 0) \<or> fgt (G_INITIAL_WATER_LEVEL q) (flit 1)) \<longrightarrow>
          main atof atoi (prog # options ps) ws = Exited [ErrorLevel] 1)
    \<and> (\<not> fle (G_DT q) (float_of_int 0)
        \<and> \<not> fle (G_WAVE_SPEED_SQ q) (float_of_int 0)
        \<and> \<not> flt (G_DAMPING q) (flit 0)
        \<and> \<not> (flt (G_INITIAL_WATER_LEVEL q) (flit 0) \<or> fgt (G_INITIAL_WATER_LEVEL q) (flit 1))
        \<and> (flt (G_INITIAL_TILT q) (flit 0) \<or> fgt (G_INITIAL_TILT q) (flit 1)) \<longrightarrow>
          main atof atoi (prog # options ps) ws = Exited [ErrorTilt] 1)
    \<and> (\<not> fle (G_DT q) (float_of_int 0)
        \<and> \<not> fle (G_WAVE_SPEED_SQ q) (float_of_int 0)
        \<and> \<not> flt (G_DAMPING q) (flit 0)
        \<and> \<not> (flt (G_INITIAL_WATER_LEVEL q) (flit 0) \<or> fgt (G_INITIAL_WATER_LEVEL q) (flit 1))
        \<and> \<not> (flt (G_INITIAL_TILT q) (flit 0) \<or> fgt (G_INITIAL_TILT q) (flit 1))
        \<and> G_SLEEP_MS q < 0 \<longrightarrow>
          main atof atoi (prog # options ps) ws = Exited [ErrorSleep] 1)
    \<and> (\<not> fle (G_DT q) (float_of_int 0)
        \<and> \<not> fle (G_WAVE_SPEED_SQ q) (float_of_int 0)
        \<and> \<not> flt (G_DAMPING q) (flit 0)
        \<and> \<not> (flt (G_INITIAL_WATER_LEVEL q) (flit 0) \<or> fgt (G_INITIAL_WATER_LEVEL q) (flit 1))
        \<and> \<not> (flt (G_INITIAL_TILT q) (flit 0) \<or> fgt (G_INITIAL_TILT q) (flit 1))
        \<and> \<not> G_SLEEP_MS q < 0 \<longrightarrow>
          (\<exists>out g. main atof atoi (prog # options ps) ws = Simulating out q g
                  \<and> (StabilityWarning \<in> set out \<longleftrightarrow>
                       fgt (fmul (fmul (G_WAVE_SPEED_SQ q) (G_DT q)) (G_DT q)) (flit (5 / 10)))))"
proof -
  note po = parse_list_options [OF assms(1), of atof atoi _ default_params]
  have p0: "parse_list atof atoi (options ps) default_params = Inr q"
    using po [of "[]"] by (simp add: assms(2))
  have a: "help_flag x \<longrightarrow> main atof atoi (prog # options ps @ x # rest) ws = Exited [Usage] 0"
    by (auto simp: main_eq po help_flag_def value_option_def)
  have b: "\<not> value_option x \<and> \<not> help_flag x \<longrightarrow>
      main atof atoi (prog # options ps @ x # rest) ws = Exited [UnknownOption x, Usage] 1"
    by (simp add: main_eq po)
  have c: "value_option x \<longrightarrow> main atof atoi (prog # options ps @ [x]) ws = Exited [Usage] 1"
    by (simp add: main_eq po)
  have d1: "fle (G_DT q) (float_of_int 0) \<longrightarrow>
      main atof atoi (prog # options ps) ws = Exited [ErrorDt] 1"
    by (simp add: main_eq p0 validate_def)
  have d2: "\<not> fle (G_DT q) (float_of_int 0)
      \<and> fle (G_WAVE_SPEED_SQ q) (float_of_int 0) \<longrightarrow>
      main atof atoi (prog # options ps) ws = Exited [ErrorSpeedSq] 1"
    by (simp add: main_eq p0 validate_def)
  have d3: "\<not> fle (G_DT q) (float_of_int 0)
      \<and> \<not> fle (G_WAVE_SPEED_SQ q) (float_of_int 0)
      \<and> flt (G_DAMPING q) (flit 0) \<longrightarrow>
      main atof atoi (prog # options ps) ws = Exited [ErrorDamping] 1"
    by (simp add: main_eq p0 validate_def)
  have d4: "\<not> fle (G_DT q) (float_of_int 0)
      \<and> \<not> fle (G_WAVE_SPEED_SQ q) (float_of_int 0)
      \<and> \<not> flt (G_DAMPING q) (flit 0)
      \<and> (flt (G_INITIAL_WATER_LEVEL q) (flit 0) \<or> fgt (G_INITIAL_WATER_LEVEL q) (flit 1)) \<longrightarrow>
      main atof atoi (prog # options ps) ws = Exited [ErrorLevel] 1"
    by (simp add: main_eq p0 validate_def)
  have d5: "\<not> fle (G_DT q) (float_of_int 0)
      \<and> \<not> fle (G_WAVE_SPEED_SQ q) (float_of_int 0)
      \<and> \<not> flt (G_DAMPING q) (flit 0)
      \<and> \<not> (flt (G_INITIAL_WATER_LEVEL q) (flit 0) \<or> fgt (G_INITIAL_WATER_LEVEL q) (flit 1))
      \<and> (flt (G_INITIAL_TILT q) (flit 0) \<or> fgt (G_INITIAL_TILT q) (flit 1)) \<longrightarrow>
      main atof atoi (prog # options ps) ws = Exited [ErrorTilt] 1"
    by (simp add: main_eq p0 validate_def)
  have d6: "\<not> fle (G_DT q) (float_of_int 0)
      \<and> \<not> fle (G_WAVE_SPEED_SQ q) (float_of_int 0)
      \<and> \<not> flt (G_DAMPING q) (flit 0)
      \<and> \<not> (flt (G_INITIAL_WATER_LEVEL q) (flit 0) \<or> fgt (G_INITIAL_WATER_LEVEL q) (flit 1))
      \<and> \<not> (flt (G_INITIAL_TILT q) (flit 0) \<or> fgt (G_INITIAL_TILT q) (flit 1))
      \<and> G_SLEEP_MS q < 0 \<longrightarrow>
      main atof atoi (prog # options ps) ws = Exited [ErrorSleep] 1"
    by (simp add: main_eq p0 validate_def)
  have e: "\<not> fle (G_DT q) (float_of_int 0)
      \<and> \<not> fle (G_WAVE_SPEED_SQ q) (float_of_int 0)
      \<and> \<not> flt (G_DAMPING q) (flit 0)
      \<and> \<not> (flt (G_INITIAL_WATER_LEVEL q) (flit 0) \<or> fgt (G_INITIAL_WATER_LEVEL q) (flit 1))
      \<and> \<not> (flt (G_INITIAL_TILT q) (flit 0) \<or> fgt (G_INITIAL_TILT q) (flit 1))
      \<and> \<not> G_SLEEP_MS q < 0 \<longrightarrow>
      (\<exists>out g. main atof atoi (prog # options ps) ws = Simulating out q g
              \<and> (StabilityWarning \<in> set out \<longleftrightarrow>
                   fgt (fmul (fmul (G_WAVE_SPEED_SQ q) (G_DT q)) (G_DT q)) (flit (5 / 10))))"
    by (simp add: main_eq p0 validate_def)
  from a b c d1 d2 d3 d4 d5 d6 e show ?thesis
    by (intro conjI)
qed

text \<open>
  A help flag after an unknown option does not give status 0, an unknown option after a
  help flag does not give status 1, and a help flag in the place of a value is read as
  the value.
\<close>

theorem first_argument_decides:
  "main sample_atof sample_atoi [''cfd'', ''--bogus'', ''--help''] None
     = Exited [UnknownOption ''--bogus'', Usage] 1
   \<and> main sample_atof sample_atoi [''cfd'', ''--help'', ''--bogus''] None = Exited [Usage] 0
   \<and> main sample_atof sample_atoi [''cfd'', ''--dt'', ''--help''] None = Exited [ErrorDt] 1"
  by (simp add: main_eq value_option_def help_flag_def set_option_def validate_def
      default_params_def sample_atof_def flit_0 float_of_int_def round_float_def)

theorem main_outcomes_witness:
  "list_all (\<lambda>(a, v). value_option a) [(''--dt'', ''1.0''), (''--speed_sq'', ''1.0'')]
   \<and> help_flag ''--help''
   \<and> main sample_atof sample_atoi
         [''cfd'', ''--dt'', ''1.0'', ''--speed_sq'', ''1.0'', ''--help'', ''--bogus''] None
       = Exited [Usage] 0
   \<and> \<not> value_option ''--bogus'' \<and> \<not> help_flag ''--bogus''
   \<and> main sample_atof sample_atoi
         [''cfd'', ''--dt'', ''1.0'', ''--speed_sq'', ''1.0'', ''--bogus'', ''--help''] None
       = Exited [UnknownOption ''--bogus'', Usage] 1
   \<and> value_option ''--tilt''
   \<and> main sample_atof sample_atoi [''cfd'', ''--dt'', ''1.0'', ''--speed_sq'', ''1.0'', ''--tilt''] None
       = Exited [Usage] 1
   \<and> list_all (\<lambda>(a, v). value_option a) [(''--dt'', ''0''), (''--speed_sq'', ''0'')]
   \<and> fle (G_DT (set_options sample_atof sample_atoi [(''--dt'', ''0''), (''--speed_sq'', ''0'')] default_params)) (float_of_int 0)
   \<and> main sample_atof sample_atoi [''cfd'', ''--dt'', ''0'', ''--speed_sq'', ''0''] None = Exited [ErrorDt] 1
   \<and> list_all (\<lambda>(a, v). value_option a) [(''--speed_sq'', ''0'')]
   \<and> \<not> fle (G_DT (set_options sample_atof sample_atoi [(''--speed_sq'', ''0'')] default_params)) (float_of_int 0)
   \<and> fle (G_WAVE_SPEED_SQ (set_options sample_atof sample_atoi [(''--speed_sq'', ''0'')] default_params)) (float_of_int 0)
   \<and> main sample_atof sample_atoi [''cfd'', ''--speed_sq'', ''0''] None = Exited [ErrorSpeedSq] 1
   \<and> list_all (\<lambda>(a, v). value_option a) [(''--damping'', ''-1.0'')]
   \<and> \<not> fle (G_DT (set_options sample_atof sample_atoi [(''--damping'', ''-1.0'')] default_params)) (float_of_int 0)
   \<and> \<not> fle (G_WAVE_SPEED_SQ (set_options sample_atof sample_atoi [(''--damping'', ''-1.0'')] default_params)) (float_of_int 0)
   \<and> flt (G_DAMPING (set_options sample_atof sample_atoi [(''--damping'', ''-1.0'')] default_params)) (flit 0)
   \<and> main sample_atof sample_atoi [''cfd'', ''--damping'', ''-1.0''] None = Exited [ErrorDamping] 1
   \<and> list_all (\<lambda>(a, v). value_option a) [(''--level'', ''2.0'')]
   \<and> \<not> fle (G_DT (set_options sample_atof sample_atoi [(''--level'', ''2.0'')] default_params)) (float_of_int 0)
   \<and> \<not> fle (G_WAVE_SPEED_SQ (set_options sample_atof sample_atoi [(''--level'', ''2.0'')] default_params)) (float_of_int 0)
   \<and> \<not> flt (G_DAMPING (set_options sample_atof sample_atoi [(''--level'', ''2.0'')] default_params)) (flit 0)
   \<and> (flt (G_INITIAL_WATER_LEVEL (set_options sample_atof sample_atoi [(''--level'', ''2.0'')] default_params)) (flit 0) \<or> fgt (G_INITIAL_WATER_LEVEL (set_options sample_atof sample_atoi [(''--level'', ''2.0'')] default_params)) (flit 1))
   \<and> main sample_atof sample_atoi [''cfd'', ''--level'', ''2.0''] None = Exited [ErrorLevel] 1
   \<and> list_all (\<lambda>(a, v). value_option a) [(''--tilt'', ''-1.0'')]
   \<and> \<not> fle (G_DT (set_options sample_atof sample_atoi [(''--tilt'', ''-1.0'')] default_params)) (float_of_int 0)
   \<and> \<not> fle (G_WAVE_SPEED_SQ (set_options sample_atof sample_atoi [(''--tilt'', ''-1.0'')] default_params)) (float_of_int 0)
   \<and> \<not> flt (G_DAMPING (set_options sample_atof sample_atoi [(''--tilt'', ''-1.0'')] default_params)) (flit 0)
   \<and> \<not> (flt (G_INITIAL_WATER_LEVEL (set_options sample_atof sample_atoi [(''--tilt'', ''-1.0'')] default_params)) (flit 0) \<or> fgt (G_INITIAL_WATER_LEVEL (set_options sample_atof sample_atoi [(''--tilt'', ''-1.0'')] default_params)) (flit 1))
   \<and> (flt (G_INITIAL_TILT (set_options sample_atof sample_atoi [(''--tilt'', ''-1.0'')] default_params)) (flit 0) \<or> fgt (G_INITIAL_TILT (set_options sample_atof sample_atoi [(''--tilt'', ''-1.0'')] default_params)) (flit 1))
   \<and> main sample_atof sample_atoi [''cfd'', ''--tilt'', ''-1.0''] None = Exited [ErrorTilt] 1
   \<and> list_all (\<lambda>(a, v). value_option a) [(''--sleep'', ''-1'')]
   \<and> \<not> fle (G_DT (set_options sample_atof sample_atoi [(''--sleep'', ''-1'')] default_params)) (float_of_int 0)
   \<and> \<not> fle (G_WAVE_SPEED_SQ (set_options sample_atof sample_atoi [(''--sleep'', ''-1'')] default_params)) (float_of_int 0)
   \<and> \<not> flt (G_DAMPING (set_options sample_atof sample_atoi [(''--sleep'', ''-1'')] default_params)) (flit 0)
   \<and> \<not> (flt (G_INITIAL_WATER_LEVEL (set_options sample_atof sample_atoi [(''--sleep'', ''-1'')] default_params)) (flit 0) \<or> fgt (G_INITIAL_WATER_LEVEL (set_options sample_atof sample_atoi [(''--sleep'', ''-1'')] default_params)) (flit 1))
   \<and> \<not> (flt (G_INITIAL_TILT (set_options sample_atof sample_atoi [(''--sleep'', ''-1'')] default_params)) (flit 0) \<or> fgt (G_INITIAL_TILT (set_options sample_atof sample_atoi [(''--sleep'', ''-1'')] default_params)) (flit 1))
   \<and> G_SLEEP_MS (set_options sample_atof sample_atoi [(''--sleep'', ''-1'')] default_params) < 0
   \<and> main sample_atof sample_atoi [''cfd'', ''--sleep'', ''-1''] None = Exited [ErrorSleep] 1
   \<and> \<not> fle (G_DT (set_options sample_atof sample_atoi [(''--dt'', ''1.0''), (''--speed_sq'', ''1.0'')] default_params)) (float_of_int 0)
   \<and> \<not> fle (G_WAVE_SPEED_SQ (set_options sample_atof sample_atoi [(''--dt'', ''1.0''), (''--speed_sq'', ''1.0'')] default_params)) (float_of_int 0)
   \<and> \<not> flt (G_DAMPING (set_options sample_atof sample_atoi [(''--dt'', ''1.0''), (''--speed_sq'', ''1.0'')] default_params)) (flit 0)
   \<and> \<not> (flt (G_INITIAL_WATER_LEVEL (set_options sample_atof sample_atoi [(''--dt'', ''1.0''), (''--speed_sq'', ''1.0'')] default_params)) (flit 0) \<or> fgt (G_INITIAL_WATER_LEVEL (set_options sample_atof sample_atoi [(''--dt'', ''1.0''), (''--speed_sq'', ''1.0'')] default_params)) (flit 1))
   \<and> \<not> (flt (G_INITIAL_TILT (set_options sample_atof sample_atoi [(''--dt'', ''1.0''), (''--speed_sq'', ''1.0'')] default_params)) (flit 0) \<or> fgt (G_INITIAL_TILT (set_options sample_atof sample_atoi [(''--dt'', ''1.0''), (''--speed_sq'', ''1.0'')] default_params)) (flit 1))
   \<and> \<not> G_SLEEP_MS (set_options sample_atof sample_atoi [(''--dt'', ''1.0''), (''--speed_sq'', ''1.0'')] default_params) < 0
   \<and> fgt (fmul (fmul (G_WAVE_SPEED_SQ (set_options sample_atof sample_atoi [(''--dt'', ''1.0''), (''--speed_sq'', ''1.0'')] default_params)) (G_DT (set_options sample_atof sample_atoi [(''--dt'', ''1.0''), (''--speed_sq'', ''1.0'')] default_params))) (G_DT (set_options sample_atof sample_atoi [(''--dt'', ''1.0''), (''--speed_sq'', ''1.0'')] default_params))) (flit (5 / 10))
   \<and> (\<exists>out g. main sample_atof sample_atoi [''cfd'', ''--dt'', ''1.0'', ''--speed_sq'', ''1.0''] None
         = Simulating out (set_options sample_atof sample_atoi [(''--dt'', ''1.0''), (''--speed_sq'', ''1.0'')] default_params) g
       \<and> StabilityWarning \<in> set out)"
proof -
  let ?ps = "[(''--dt'', ''1.0''), (''--speed_sq'', ''1.0'')]"
  let ?q = "set_options sample_atof sample_atoi ?ps default_params"
  note ev = set_option_def sample_atof_def sample_atoi_def default_params_def float_eval fgt_def
  have l: "list_all (\<lambda>(a, v). value_option a) ?ps"
    and x: "help_flag ''--help''" "\<not> value_option ''--bogus''" "\<not> help_flag ''--bogus''"
      "value_option ''--tilt''"
    by (simp_all add: value_option_def help_flag_def)
  note k = main_outcomes [OF l refl, where prog = "''cfd''" and ws = None]
  have a: "main sample_atof sample_atoi
      [''cfd'', ''--dt'', ''1.0'', ''--speed_sq'', ''1.0'', ''--help'', ''--bogus''] None = Exited [Usage] 0"
    using k [where x = "''--help''" and rest = "[''--bogus'']", THEN conjunct1] x
    by simp
  have b: "main sample_atof sample_atoi
      [''cfd'', ''--dt'', ''1.0'', ''--speed_sq'', ''1.0'', ''--bogus'', ''--help''] None
        = Exited [UnknownOption ''--bogus'', Usage] 1"
    using k [where x = "''--bogus''" and rest = "[''--help'']", THEN conjunct2, THEN conjunct1] x
    by simp
  have c: "main sample_atof sample_atoi [''cfd'', ''--dt'', ''1.0'', ''--speed_sq'', ''1.0'', ''--tilt''] None
      = Exited [Usage] 1"
    using k [where x = "''--tilt''", THEN conjunct2, THEN conjunct2, THEN conjunct1] x
    by simp
  have l1: "list_all (\<lambda>(a, v). value_option a) [(''--dt'', ''0''), (''--speed_sq'', ''0'')]"
    by (simp add: value_option_def)
  have p1: "fle (G_DT (set_options sample_atof sample_atoi [(''--dt'', ''0''), (''--speed_sq'', ''0'')] default_params)) (float_of_int 0)"
    by (simp add: ev)
  have m1: "main sample_atof sample_atoi [''cfd'', ''--dt'', ''0'', ''--speed_sq'', ''0''] None = Exited [ErrorDt] 1"
    using main_outcomes [OF l1 refl, where prog = "''cfd''" and ws = None,
        THEN conjunct2, THEN conjunct2, THEN conjunct2, THEN conjunct1, THEN mp, OF p1]
    by simp
  have l2: "list_all (\<lambda>(a, v). value_option a) [(''--speed_sq'', ''0'')]"
    by (simp add: value_option_def)
  have p2: "\<not> fle (G_DT (set_options sample_atof sample_atoi [(''--speed_sq'', ''0'')] default_params)) (float_of_int 0)
      \<and> fle (G_WAVE_SPEED_SQ (set_options sample_atof sample_atoi [(''--speed_sq'', ''0'')] default_params)) (float_of_int 0)"
    by (simp add: ev)
  have m2: "main sample_atof sample_atoi [''cfd'', ''--speed_sq'', ''0''] None = Exited [ErrorSpeedSq] 1"
    using main_outcomes [OF l2 refl, where prog = "''cfd''" and ws = None,
        THEN conjunct2, THEN conjunct2, THEN conjunct2, THEN conjunct2, THEN conjunct1, THEN mp, OF p2]
    by simp
  have l3: "list_all (\<lambda>(a, v). value_option a) [(''--damping'', ''-1.0'')]"
    by (simp add: value_option_def)
  have p3: "\<not> fle (G_DT (set_options sample_atof sample_atoi [(''--damping'', ''-1.0'')] default_params)) (float_of_int 0)
      \<and> \<not> fle (G_WAVE_SPEED_SQ (set_options sample_atof sample_atoi [(''--damping'', ''-1.0'')] default_params)) (float_of_int 0)
      \<and> flt (G_DAMPING (set_options sample_atof sample_atoi [(''--damping'', ''-1.0'')] default_params)) (flit 0)"
    by (simp add: ev)
  have m3: "main sample_atof sample_atoi [''cfd'', ''--damping'', ''-1.0''] None = Exited [ErrorDamping] 1"
    using main_outcomes [OF l3 refl, where prog = "''cfd''" and ws = None,
        THEN conjunct2, THEN conjunct2, THEN conjunct2, THEN conjunct2, THEN conjunct2, THEN conjunct1, THEN mp, OF p3]
    by simp
  have l4: "list_all (\<lambda>(a, v). value_option a) [(''--level'', ''2.0'')]"
    by (simp add: value_option_def)
  have p4: "\<not> fle (G_DT (set_options sample_atof sample_atoi [(''--level'', ''2.0'')] default_params)) (float_of_int 0)
      \<and> \<not> fle (G_WAVE_SPEED_SQ (set_options sample_atof sample_atoi [(''--level'', ''2.0'')] default_params)) (float_of_int 0)
      \<and> \<not> flt (G_DAMPING (set_options sample_atof sample_atoi [(''--level'', ''2.0'')] default_params)) (flit 0)
      \<and> (flt (G_INITIAL_WATER_LEVEL (set_options sample_atof sample_atoi [(''--level'', ''2.0'')] default_params)) (flit 0) \<or> fgt (G_INITIAL_WATER_LEVEL (set_options sample_atof sample_atoi [(''--level'', ''2.0'')] default_params)) (flit 1))"
    by (simp add: ev)
  have m4: "main sample_atof sample_atoi [''cfd'', ''--level'', ''2.0''] None = Exited [ErrorLevel] 1"
    using main_outcomes [OF l4 refl, where prog = "''cfd''" and ws = None,
        THEN conjunct2, THEN conjunct2, THEN conjunct2, THEN conjunct2, THEN conjunct2, THEN conjunct2, THEN conjunct1, THEN mp, OF p4]
    by simp
  have l5: "list_all (\<lambda>(a, v). value_option a) [(''--tilt'', ''-1.0'')]"
    by (simp add: value_option_def)
  have p5: "\<not> fle (G_DT (set_options sample_atof sample_atoi [(''--tilt'', ''-1.0'')] default_params)) (float_of_int 0)
      \<and> \<not> fle (G_WAVE_SPEED_SQ (set_options sample_atof sample_atoi [(''--tilt'', ''-1.0'')] default_params)) (float_of_int 0)
      \<and> \<not> flt (G_DAMPING (set_options sample_atof sample_atoi [(''--tilt'', ''-1.0'')] default_params)) (flit 0)
      \<and> \<not> (flt (G_INITIAL_WATER_LEVEL (set_options sample_atof sample_atoi [(''--tilt'', ''-1.0'')] default_params)) (flit 0) \<or> fgt (G_INITIAL_WATER_LEVEL (set_options sample_atof sample_atoi [(''--tilt'', ''-1.0'')] default_params)) (flit 1))
      \<and> (flt (G_INITIAL_TILT (set_options sample_atof sample_atoi [(''--tilt'', ''-1.0'')] default_params)) (flit 0) \<or> fgt (G_INITIAL_TILT (set_options sample_atof sample_atoi [(''--tilt'', ''-1.0'')] default_params)) (flit 1))"
    by (simp add: ev)
  have m5: "main sample_atof sample_atoi [''cfd'', ''--tilt'', ''-1.0''] None = Exited [ErrorTilt] 1"
    using main_outcomes [OF l5 refl, where prog = "''cfd''" and ws = None,
        THEN conjunct2, THEN conjunct2, THEN conjunct2, THEN conjunct2, THEN conjunct2, THEN conjunct2, THEN conjunct2, THEN conjunct1, THEN mp, OF p5]
    by simp
  have l6: "list_all (\<lambda>(a, v). value_option a) [(''--sleep'', ''-1'')]"
    by (simp add: value_option_def)
  have p6: "\<not> fle (G_DT (set_options sample_atof sample_atoi [(''--sleep'', ''-1'')] default_params)) (float_of_int 0)
      \<and> \<not> fle (G_WAVE_SPEED_SQ (set_options sample_atof sample_atoi [(''--sleep'', ''-1'')] default_params)) (float_of_int 0)
      \<and> \<not> flt (G_DAMPING (set_options sample_atof sample_atoi [(''--sleep'', ''-1'')] default_params)) (flit 0)
      \<and> \<not> (flt (G_INITIAL_WATER_LEVEL (set_options sample_atof sample_atoi [(''--sleep'', ''-1'')] default_params)) (flit 0) \<or> fgt (G_INITIAL_WATER_LEVEL (set_options sample_atof sample_atoi [(''--sleep'', ''-1'')] default_params)) (flit 1))
      \<and> \<not> (flt (G_INITIAL_TILT (set_options sample_atof sample_atoi [(''--sleep'', ''-1'')] default_params)) (flit 0) \<or> fgt (G_INITIAL_TILT (set_options sample_atof sample_atoi [(''--sleep'', ''-1'')] default_params)) (flit 1))
      \<and> G_SLEEP_MS (set_options sample_atof sample_atoi [(''--sleep'', ''-1'')] default_params) < 0"
    by (simp add: ev)
  have m6: "main sample_atof sample_atoi [''cfd'', ''--sleep'', ''-1''] None = Exited [ErrorSleep] 1"
    using main_outcomes [OF l6 refl, where prog = "''cfd''" and ws = None,
        THEN conjunct2, THEN conjunct2, THEN conjunct2, THEN conjunct2, THEN conjunct2, THEN conjunct2, THEN conjunct2, THEN conjunct2, THEN conjunct1, THEN mp, OF p6]
    by simp
  have p7: "\<not> fle (G_DT ?q) (float_of_int 0)
      \<and> \<not> fle (G_WAVE_SPEED_SQ ?q) (float_of_int 0)
      \<and> \<not> flt (G_DAMPING ?q) (flit 0)
      \<and> \<not> (flt (G_INITIAL_WATER_LEVEL ?q) (flit 0) \<or> fgt (G_INITIAL_WATER_LEVEL ?q) (flit 1))
      \<and> \<not> (flt (G_INITIAL_TILT ?q) (flit 0) \<or> fgt (G_INITIAL_TILT ?q) (flit 1))
      \<and> \<not> G_SLEEP_MS ?q < 0"
    by (simp add: ev)
  have metric: "fgt (fmul (fmul (G_WAVE_SPEED_SQ ?q) (G_DT ?q)) (G_DT ?q)) (flit (5 / 10))"
    by (simp add: ev)
  have e: "\<exists>out g. main sample_atof sample_atoi [''cfd'', ''--dt'', ''1.0'', ''--speed_sq'', ''1.0''] None
         = Simulating out ?q g \<and> StabilityWarning \<in> set out"
    using k [THEN conjunct2, THEN conjunct2, THEN conjunct2, THEN conjunct2, THEN conjunct2, THEN conjunct2, THEN conjunct2, THEN conjunct2, THEN conjunct2, THEN mp, OF p7] metric
    by auto
  from l x a b c l1 p1 m1 l2 p2 m2 l3 p3 m3 l4 p4 m4 l5 p5 m5 l6 p6 m6 p7 metric e show ?thesis
    by (intro conjI) (elim conjE; assumption)+
qed

section \<open>The size of the domain\<close>

lemma main_Simulating_size:
  assumes "main atof atoi argv ws = Simulating out p g"
  shows "g = initialize_simulation p
               (allocate_grids (nat (fst (domain_size (get_terminal_size ws))))
                  (nat (snd (domain_size (get_terminal_size ws)))))"
    and "TerminalTooSmall \<in> set out \<longleftrightarrow>
           fst (get_terminal_size ws) < 10 \<or> snd (get_terminal_size ws) < 5"
  using assms
  by (auto simp: main_def Let_def split_beta split: sum.splits option.splits prod.splits if_splits)

lemma get_terminal_size_pos:
  "0 < fst (get_terminal_size ws) \<and> 0 < snd (get_terminal_size ws)"
  by (auto simp: get_terminal_size_def Let_def split: option.splits prod.splits)

text \<open>
  C9, as the code has it. Take a run of \<^verbatim>\<open>main\<close> that reaches the simulation, and the size
  \<^verbatim>\<open>get_terminal_size\<close> returns for it. A width below 10 is replaced by 20 and a height
  below 5 by 10, each on its own, and a dimension that is large enough is kept; the
  message that the terminal is too small is printed exactly when one of the two is below
  its minimum. So a size below 10 columns and below 5 rows gives the domain of 20 columns
  by 10 rows.
\<close>

theorem main_domain_size:
  assumes "main atof atoi argv ws = Simulating out p g"
    and "get_terminal_size ws = (width, height)"
  shows "int (WIDTH g) = (if width < 10 then 20 else width)
    \<and> int (HEIGHT g) = (if height < 5 then 10 else height)
    \<and> (TerminalTooSmall \<in> set out \<longleftrightarrow> width < 10 \<or> height < 5)
    \<and> (width < 10 \<and> height < 5 \<longrightarrow> WIDTH g = 20 \<and> HEIGHT g = 10)"
proof -
  note m = main_Simulating_size [OF assms(1)]
  have pos: "0 < width" "0 < height"
    using get_terminal_size_pos [of ws] by (simp_all add: assms(2))
  have W: "WIDTH g = nat (if width < 10 then 20 else width)"
    and H: "HEIGHT g = nat (if height < 5 then 10 else height)"
    by (simp_all add: m(1) initialize_simulation_frame allocate_grids_def assms(2) domain_size_def)
  have t: "TerminalTooSmall \<in> set out \<longleftrightarrow> width < 10 \<or> height < 5"
    using m(2) by (simp add: assms(2))
  from W H t pos show ?thesis
    by simp
qed

theorem main_domain_size_witness:
  "main sample_atof sample_atoi [''cfd''] (Some (5, 3))
     = Simulating [TerminalTooSmall, Banner] default_params
         (initialize_simulation default_params (allocate_grids 20 10))
   \<and> get_terminal_size (Some (5, 3)) = (5, 2)
   \<and> (5::int) < 10 \<and> (2::int) < 5
   \<and> TerminalTooSmall \<in> set [TerminalTooSmall, Banner]
   \<and> WIDTH (initialize_simulation default_params (allocate_grids 20 10)) = 20
   \<and> HEIGHT (initialize_simulation default_params (allocate_grids 20 10)) = 10"
proof -
  have metric: "\<not> fgt (fmul (fmul (G_WAVE_SPEED_SQ default_params) (G_DT default_params))
      (G_DT default_params)) (flit (5 / 10))"
    by (simp add: default_params_def float_eval fgt_def)
  have s: "get_terminal_size (Some (5, 3)) = (5, 2)"
    by (simp add: get_terminal_size_def)
  have m: "main sample_atof sample_atoi [''cfd''] (Some (5, 3))
      = Simulating [TerminalTooSmall, Banner] default_params
          (initialize_simulation default_params (allocate_grids 20 10))"
    using metric by (simp add: main_eq validate_default s domain_size_def)
  have b: "(5::int) < 10" "(2::int) < 5"
    by simp_all
  note k = main_domain_size [OF m s]
  have t: "TerminalTooSmall \<in> set [TerminalTooSmall, Banner]"
    using k [THEN conjunct2, THEN conjunct2, THEN conjunct1] b by simp
  have d: "WIDTH (initialize_simulation default_params (allocate_grids 20 10)) = 20
      \<and> HEIGHT (initialize_simulation default_params (allocate_grids 20 10)) = 10"
    using k [THEN conjunct2, THEN conjunct2, THEN conjunct2] b by blast
  show ?thesis
    by (intro conjI) (rule m s b t d [THEN conjunct1] d [THEN conjunct2])+
qed

text \<open>
  A terminal 8 columns wide and 31 rows high is detected as 8 by 30. The test
  \<^verbatim>\<open>WIDTH < 10 || HEIGHT < 5\<close> of \<^verbatim>\<open>main\<close> finds it too small and the message is printed,
  but the domain is 20 by 30, not 20 by 10: the height is kept.
\<close>

theorem domain_size_narrow_terminal:
  "get_terminal_size (Some (8, 31)) = (8, 30)
   \<and> main sample_atof sample_atoi [''cfd''] (Some (8, 31))
       = Simulating [TerminalTooSmall, Banner] default_params
           (initialize_simulation default_params (allocate_grids 20 30))
   \<and> WIDTH (initialize_simulation default_params (allocate_grids 20 30)) = 20
   \<and> HEIGHT (initialize_simulation default_params (allocate_grids 20 30)) = 30
   \<and> HEIGHT (initialize_simulation default_params (allocate_grids 20 30)) \<noteq> 10"
proof -
  have metric: "\<not> fgt (fmul (fmul (G_WAVE_SPEED_SQ default_params) (G_DT default_params))
      (G_DT default_params)) (flit (5 / 10))"
    by (simp add: default_params_def float_eval fgt_def)
  have s: "get_terminal_size (Some (8, 31)) = (8, 30)"
    by (simp add: get_terminal_size_def)
  have m: "main sample_atof sample_atoi [''cfd''] (Some (8, 31))
      = Simulating [TerminalTooSmall, Banner] default_params
          (initialize_simulation default_params (allocate_grids 20 30))"
    using metric by (simp add: main_eq validate_default s domain_size_def)
  have d: "WIDTH (initialize_simulation default_params (allocate_grids 20 30)) = 20"
    "HEIGHT (initialize_simulation default_params (allocate_grids 20 30)) = 30"
    "HEIGHT (initialize_simulation default_params (allocate_grids 20 30)) \<noteq> 10"
    by (simp_all add: initialize_simulation_frame allocate_grids_def)
  show ?thesis
    by (intro conjI) (rule s m d)+
qed

section \<open>Heights of a run\<close>

text \<open>
  C2. In every run of \<^verbatim>\<open>main\<close> that reaches the simulation, every cell that is no
  obstacle has a height \<open>h\<close> with \<^verbatim>\<open>0.0f <= h\<close> and \<^verbatim>\<open>h <= 1.0f\<close> after the
  initialisation (\<open>n = 0\<close>) and after every round of the main loop.
\<close>

theorem heights_stay_in_range:
  assumes "main atof atoi argv ws = Simulating out p g" "r < HEIGHT g" "c < WIDTH g"
    and "obstacle (simulate p n g) ! r ! c = 0"
  shows "in01 (h (simulate p n g) ! r ! c)"
proof -
  from main_Simulating [OF assms(1)] obtain W H
    where v: "validate p = None" and g: "g = initialize_simulation p (allocate_grids W H)"
    by blast
  have dims: "HEIGHT g = HEIGHT (allocate_grids W H)" "WIDTH g = WIDTH (allocate_grids W H)"
    by (simp_all add: g initialize_simulation_frame)
  show ?thesis
    using in_range_validated [OF v wf_grid_allocate, of r W H c n] assms(2-4)
    unfolding g [symmetric] dims [symmetric] by simp
qed

theorem heights_stay_in_range_witness:
  "main sample_atof sample_atoi [''cfd''] None
     = Simulating [Banner] default_params (initialize_simulation default_params (allocate_grids 80 24))
   \<and> (1::nat) < HEIGHT (initialize_simulation default_params (allocate_grids 80 24))
   \<and> (1::nat) < WIDTH (initialize_simulation default_params (allocate_grids 80 24))
   \<and> obstacle (simulate default_params 2
         (initialize_simulation default_params (allocate_grids 80 24))) ! 1 ! 1 = 0
   \<and> in01 (h (simulate default_params 2
         (initialize_simulation default_params (allocate_grids 80 24))) ! 1 ! 1)"
proof -
  let ?g = "initialize_simulation default_params (allocate_grids 80 24)"
  have metric: "\<not> fgt (fmul (fmul (G_WAVE_SPEED_SQ default_params) (G_DT default_params))
      (G_DT default_params)) (flit (5 / 10))"
    by (simp add: default_params_def float_eval fgt_def)
  have m: "main sample_atof sample_atoi [''cfd''] None = Simulating [Banner] default_params ?g"
    using metric
    by (simp add: main_eq validate_default get_terminal_size_def domain_size_def)
  have d: "(1::nat) < HEIGHT ?g" "(1::nat) < WIDTH ?g"
    by (simp_all add: initialize_simulation_frame allocate_grids_def)
  have "obstacle ?g ! 1 ! 1 = 0"
    using initialize_simulation_cells(1) [OF wf_grid_allocate [of 80 24], of 1 1 default_params]
    by (simp add: allocate_grids_def border_def)
  then have o: "obstacle (simulate default_params 2 ?g) ! 1 ! 1 = 0"
    by (simp add: simulate_frame)
  note k = heights_stay_in_range [OF m d o]
  show ?thesis
    by (intro conjI) (rule m d o k)+
qed

section \<open>The initial heights\<close>

lemma flat_columns:
  assumes "G_INITIAL_TILT q = flit 0" "G_INITIAL_WATER_LEVEL q = flit (1 / 2)"
  shows
    "tilt_height q 21 1 = flit (1 / 2)"
    "tilt_height q 21 2 = flit (1 / 2)"
    "tilt_height q 21 3 = flit (1 / 2)"
    "tilt_height q 21 4 = flit (1 / 2)"
    "tilt_height q 21 5 = flit (1 / 2)"
    "tilt_height q 21 6 = flit (1 / 2)"
    "tilt_height q 21 7 = flit (1 / 2)"
    "tilt_height q 21 8 = flit (1 / 2)"
    "tilt_height q 21 9 = flit (1 / 2)"
    "tilt_height q 21 10 = flit (1 / 2)"
    "tilt_height q 21 11 = flit (1 / 2)"
    "tilt_height q 21 12 = flit (1 / 2)"
    "tilt_height q 21 13 = flit (1 / 2)"
    "tilt_height q 21 14 = flit (1 / 2)"
    "tilt_height q 21 15 = flit (1 / 2)"
    "tilt_height q 21 16 = flit (1 / 2)"
    "tilt_height q 21 17 = flit (1 / 2)"
    "tilt_height q 21 18 = flit (1 / 2)"
    "tilt_height q 21 19 = flit (1 / 2)"
  by (simp_all add: tilt_height_def tilt_effect_def assms Let_def float_eval fmaxf_def fminf_def fge_def fgt_def)

lemma tilt_height_spec:
  "tilt_height p W c =
     clamp01 (fadd (G_INITIAL_WATER_LEVEL p)
       (fmul (fmul (G_INITIAL_TILT p)
                (fsub (fdiv (float_of_int (int c)) (fsub (float_of_int (int W)) (flit 1)))
                      (flit (5 / 10))))
             (flit 2)))"
  by (simp add: tilt_height_def tilt_effect_def clamp01_def Let_def)

lemma tilted_columns:
  assumes "G_INITIAL_TILT p = flit (1 / 10)" "G_INITIAL_WATER_LEVEL p = flit (1 / 2)"
  shows "tilt_effect p 11 0 = fneg (flit (1 / 10))" "tilt_effect p 11 10 = flit (1 / 10)"
    "tilt_height p 11 1 = flit (42 / 100)" "tilt_height p 11 9 = flit (58 / 100)"
  by (simp_all add: tilt_height_def tilt_effect_def assms Let_def float_eval fmaxf_def fminf_def fge_def fgt_def)

text \<open>
  C6. When \<^verbatim>\<open>fabsf(G_INITIAL_TILT) < 0.001f\<close> and the domain is more than two cells wide and
  high, the cell \<open>(HEIGHT / 2, WIDTH / 2)\<close> is no obstacle and the initialisation leaves
  \<^verbatim>\<open>fminf(1.0f, G_INITIAL_WATER_LEVEL + 0.4f)\<close> in it. With tilt 0 and level 0.5 on a domain
  21 wide and 11 high, the cell \<open>(5, 10)\<close> holds \<^verbatim>\<open>0.9f\<close> and every other interior cell
  \<^verbatim>\<open>0.5f\<close>.
\<close>

theorem central_disturbance:
  assumes "wf_grid g" "flt (fabsf (G_INITIAL_TILT p)) (flit (1 / 1000))"
    "2 < WIDTH g" "2 < HEIGHT g"
  shows "obstacle (initialize_simulation p g) ! (HEIGHT g div 2) ! (WIDTH g div 2) = 0
    \<and> h (initialize_simulation p g) ! (HEIGHT g div 2) ! (WIDTH g div 2)
        = fminf (flit 1) (fadd (G_INITIAL_WATER_LEVEL p) (flit (4 / 10)))
    \<and> (G_INITIAL_TILT q = flit 0 \<and> G_INITIAL_WATER_LEVEL q = flit (5 / 10) \<longrightarrow>
          h (initialize_simulation q (allocate_grids 21 11)) ! 5 ! 10 = flit (9 / 10)
          \<and> (\<forall>r c. 0 < r \<and> r < 10 \<and> 0 < c \<and> c < 20 \<and> (r \<noteq> 5 \<or> c \<noteq> 10) \<longrightarrow>
                h (initialize_simulation q (allocate_grids 21 11)) ! r ! c = flit (5 / 10)))"
proof -
  have centre: "HEIGHT g div 2 < HEIGHT g" "WIDTH g div 2 < WIDTH g"
    "\<not> border (WIDTH g) (HEIGHT g) (HEIGHT g div 2) (WIDTH g div 2)"
    using centre_interior [OF assms(4,3)] by simp_all
  have dist: "disturbed p (WIDTH g) (HEIGHT g)"
    using assms(2,3,4) by (simp add: disturbed_def)
  note cells = initialize_simulation_cells [OF assms(1) centre(1,2), of p]
  have a: "obstacle (initialize_simulation p g) ! (HEIGHT g div 2) ! (WIDTH g div 2) = 0"
    using cells(1) centre(3) by simp
  have b: "h (initialize_simulation p g) ! (HEIGHT g div 2) ! (WIDTH g div 2)
        = fminf (flit 1) (fadd (G_INITIAL_WATER_LEVEL p) (flit (4 / 10)))"
    using cells(3) dist by (simp add: bump_def)
  have c: "h (initialize_simulation q (allocate_grids 21 11)) ! 5 ! 10 = flit (9 / 10)
      \<and> (\<forall>r c. 0 < r \<and> r < 10 \<and> 0 < c \<and> c < 20 \<and> (r \<noteq> 5 \<or> c \<noteq> 10) \<longrightarrow>
            h (initialize_simulation q (allocate_grids 21 11)) ! r ! c = flit (5 / 10))"
    if q: "G_INITIAL_TILT q = flit 0" "G_INITIAL_WATER_LEVEL q = flit (1 / 2)"
  proof -
    let ?g = "allocate_grids 21 11"
    have w: "wf_grid ?g" by (rule wf_grid_allocate)
    have dims: "WIDTH ?g = 21" "HEIGHT ?g = 11"
      by (simp_all add: allocate_grids_def)
    have dq: "disturbed q 21 11"
      by (simp add: disturbed_def q float_eval)
    have bq: "bump q = flit (9 / 10)"
      by (simp add: bump_def q float_eval fminf_def fgt_def)
    have cell: "h (initialize_simulation q ?g) ! r ! c =
        (if r = 5 \<and> c = 10 then flit (9 / 10) else init_h q 21 11 r c)"
      if "r < 11" "c < 21" for r c
      using initialize_simulation_cells(3) [OF w, of r c q] that dq bq by (simp add: dims)
    have mid: "h (initialize_simulation q ?g) ! 5 ! 10 = flit (9 / 10)"
      using cell [of 5 10] by simp
    have rest: "h (initialize_simulation q ?g) ! r ! c = flit (5 / 10)"
      if rc: "0 < r" "r < 10" "0 < c" "c < 20" "r \<noteq> 5 \<or> c \<noteq> 10" for r c
    proof -
      have "c = 1 \<or> c = 2 \<or> c = 3 \<or> c = 4 \<or> c = 5 \<or> c = 6 \<or> c = 7 \<or> c = 8 \<or> c = 9 \<or> c = 10 \<or> c = 11 \<or> c = 12 \<or> c = 13 \<or> c = 14 \<or> c = 15 \<or> c = 16 \<or> c = 17 \<or> c = 18 \<or> c = 19"
        using rc(3,4) by presburger
      then have "tilt_height q 21 c = flit (1 / 2)"
        using flat_columns [OF q] by (elim disjE) simp_all
      moreover have "\<not> border 21 11 r c"
        using rc by (simp add: border_def)
      ultimately show ?thesis
        using cell [of r c] rc by (auto simp: init_h_def)
    qed
    from mid rest show ?thesis by blast
  qed
  from a b c show ?thesis by simp
qed


theorem central_disturbance_witness:
  "wf_grid (allocate_grids 21 11)
   \<and> flt (fabsf (G_INITIAL_TILT (default_params\<lparr>G_INITIAL_TILT := flit 0\<rparr>))) (flit (1 / 1000))
   \<and> (2::nat) < WIDTH (allocate_grids 21 11) \<and> (2::nat) < HEIGHT (allocate_grids 21 11)
   \<and> G_INITIAL_TILT (default_params\<lparr>G_INITIAL_TILT := flit 0\<rparr>) = flit 0
   \<and> G_INITIAL_WATER_LEVEL (default_params\<lparr>G_INITIAL_TILT := flit 0\<rparr>) = flit (5 / 10)
   \<and> obstacle (initialize_simulation (default_params\<lparr>G_INITIAL_TILT := flit 0\<rparr>)
         (allocate_grids 21 11)) ! 5 ! 10 = 0
   \<and> h (initialize_simulation (default_params\<lparr>G_INITIAL_TILT := flit 0\<rparr>)
         (allocate_grids 21 11)) ! 5 ! 10 = flit (9 / 10)
   \<and> h (initialize_simulation (default_params\<lparr>G_INITIAL_TILT := flit 0\<rparr>)
         (allocate_grids 21 11)) ! 3 ! 7 = flit (5 / 10)"
proof -
  let ?p = "default_params\<lparr>G_INITIAL_TILT := flit 0\<rparr>"
  let ?g = "allocate_grids 21 11"
  have w: "wf_grid ?g" by (rule wf_grid_allocate)
  have t: "flt (fabsf (G_INITIAL_TILT ?p)) (flit (1 / 1000))"
    by (simp add: float_eval)
  have d: "(2::nat) < WIDTH ?g" "(2::nat) < HEIGHT ?g"
    by (simp_all add: allocate_grids_def)
  have q: "G_INITIAL_TILT ?p = flit 0" "G_INITIAL_WATER_LEVEL ?p = flit (5 / 10)"
    by (simp_all add: default_params_def)
  note k = central_disturbance [OF w t d, of ?p]
  have dims: "HEIGHT ?g div 2 = 5" "WIDTH ?g div 2 = 10"
    by (simp_all add: allocate_grids_def)
  have a: "obstacle (initialize_simulation ?p ?g) ! 5 ! 10 = 0"
    using k [THEN conjunct1] unfolding dims .
  note sc = k [THEN conjunct2, THEN conjunct2, THEN mp, OF conjI, OF q]
  have b: "h (initialize_simulation ?p ?g) ! 5 ! 10 = flit (9 / 10)"
    using sc by (rule conjunct1)
  have c: "h (initialize_simulation ?p ?g) ! 3 ! 7 = flit (5 / 10)"
    using sc [THEN conjunct2, rule_format, of 3 7] by simp
  show ?thesis
    by (intro conjI) (rule w t d q a b c)+
qed

text \<open>
  C5, as the code has it. The initialisation leaves the velocity 0 in every cell and the
  height 0 in every border cell. An interior cell gets the height
  \<open>clamp01 (level + tilt * (c / (WIDTH - 1) - 0.5) * 2)\<close>, except the cell
  \<open>(HEIGHT / 2, WIDTH / 2)\<close> when \<^verbatim>\<open>fabsf(G_INITIAL_TILT) < 0.001f\<close> and the domain is more
  than two cells wide and high: that one holds \<^verbatim>\<open>fminf(1.0f, G_INITIAL_WATER_LEVEL + 0.4f)\<close>.
  In a domain 11 wide with tilt \<^verbatim>\<open>0.1f\<close> and level \<^verbatim>\<open>0.5f\<close> the tilt effect of the formula
  is \<^verbatim>\<open>-0.1f\<close> at column 0 and \<^verbatim>\<open>0.1f\<close> at column 10, which are wall columns and hold the
  height 0; the columns 1 and 9 of the interior rows hold \<^verbatim>\<open>0.42f\<close> and \<^verbatim>\<open>0.58f\<close>.
\<close>

theorem tilt_initialisation:
  assumes "wf_grid g" "r < HEIGHT g" "c < WIDTH g"
  shows "vel (initialize_simulation p g) ! r ! c = flit 0
    \<and> (r = 0 \<or> r = HEIGHT g - 1 \<or> c = 0 \<or> c = WIDTH g - 1 \<longrightarrow>
          h (initialize_simulation p g) ! r ! c = flit 0)
    \<and> (0 < r \<and> r < HEIGHT g - 1 \<and> 0 < c \<and> c < WIDTH g - 1
        \<and> \<not> (flt (fabsf (G_INITIAL_TILT p)) (flit (1 / 1000)) \<and> 2 < HEIGHT g \<and> 2 < WIDTH g
              \<and> r = HEIGHT g div 2 \<and> c = WIDTH g div 2) \<longrightarrow>
          h (initialize_simulation p g) ! r ! c
          = clamp01 (fadd (G_INITIAL_WATER_LEVEL p)
              (fmul (fmul (G_INITIAL_TILT p)
                       (fsub (fdiv (float_of_int (int c)) (fsub (float_of_int (int (WIDTH g))) (flit 1)))
                             (flit (5 / 10))))
                    (flit 2))))
    \<and> (flt (fabsf (G_INITIAL_TILT p)) (flit (1 / 1000)) \<and> 2 < HEIGHT g \<and> 2 < WIDTH g
        \<and> r = HEIGHT g div 2 \<and> c = WIDTH g div 2 \<longrightarrow>
          h (initialize_simulation p g) ! r ! c
          = fminf (flit 1) (fadd (G_INITIAL_WATER_LEVEL p) (flit (4 / 10))))
    \<and> (WIDTH g = 11 \<and> G_INITIAL_TILT p = flit (1 / 10) \<and> G_INITIAL_WATER_LEVEL p = flit (5 / 10) \<longrightarrow>
          tilt_effect p 11 0 = fneg (flit (1 / 10)) \<and> tilt_effect p 11 10 = flit (1 / 10)
          \<and> h (initialize_simulation p g) ! r ! 0 = flit 0
          \<and> h (initialize_simulation p g) ! r ! 10 = flit 0
          \<and> (0 < r \<and> r < HEIGHT g - 1 \<longrightarrow>
                h (initialize_simulation p g) ! r ! 1 = flit (42 / 100)
                \<and> h (initialize_simulation p g) ! r ! 9 = flit (58 / 100)))"
proof -
  note cells = initialize_simulation_cells [OF assms, of p]
  have a: "vel (initialize_simulation p g) ! r ! c = flit 0"
    by (rule cells(2))
  have b: "h (initialize_simulation p g) ! r ! c = flit 0"
    if "r = 0 \<or> r = HEIGHT g - 1 \<or> c = 0 \<or> c = WIDTH g - 1"
  proof -
    from that have bd: "border (WIDTH g) (HEIGHT g) r c"
      by (simp add: border_def)
    have "\<not> (disturbed p (WIDTH g) (HEIGHT g) \<and> r = HEIGHT g div 2 \<and> c = WIDTH g div 2)"
      using bd centre_interior [of "HEIGHT g" "WIDTH g"] by (auto simp: disturbed_def)
    with cells(3) bd show ?thesis
      by (simp add: init_h_def)
  qed
  have f: "h (initialize_simulation p g) ! r ! c = tilt_height p (WIDTH g) c"
    if "0 < r \<and> r < HEIGHT g - 1 \<and> 0 < c \<and> c < WIDTH g - 1
        \<and> \<not> (flt (fabsf (G_INITIAL_TILT p)) (flit (1 / 1000)) \<and> 2 < HEIGHT g \<and> 2 < WIDTH g
              \<and> r = HEIGHT g div 2 \<and> c = WIDTH g div 2)"
  proof -
    from that have nb: "\<not> border (WIDTH g) (HEIGHT g) r c"
      by (simp add: border_def)
    from that have "\<not> (disturbed p (WIDTH g) (HEIGHT g) \<and> r = HEIGHT g div 2 \<and> c = WIDTH g div 2)"
      by (auto simp: disturbed_def)
    with cells(3) nb show ?thesis
      by (simp add: init_h_def)
  qed
  have d: "h (initialize_simulation p g) ! r ! c
      = fminf (flit 1) (fadd (G_INITIAL_WATER_LEVEL p) (flit (4 / 10)))"
    if "flt (fabsf (G_INITIAL_TILT p)) (flit (1 / 1000)) \<and> 2 < HEIGHT g \<and> 2 < WIDTH g
        \<and> r = HEIGHT g div 2 \<and> c = WIDTH g div 2"
    using cells(3) that by (simp add: disturbed_def bump_def)
  have s: "tilt_effect p 11 0 = fneg (flit (1 / 10)) \<and> tilt_effect p 11 10 = flit (1 / 10)
      \<and> h (initialize_simulation p g) ! r ! 0 = flit 0
      \<and> h (initialize_simulation p g) ! r ! 10 = flit 0
      \<and> (0 < r \<and> r < HEIGHT g - 1 \<longrightarrow>
            h (initialize_simulation p g) ! r ! 1 = flit (42 / 100)
            \<and> h (initialize_simulation p g) ! r ! 9 = flit (58 / 100))"
    if W: "WIDTH g = 11" and q: "G_INITIAL_TILT p = flit (1 / 10)" "G_INITIAL_WATER_LEVEL p = flit (1 / 2)"
  proof -
    have nd: "\<not> disturbed p (WIDTH g) (HEIGHT g)"
      by (simp add: disturbed_def q float_eval)
    have col: "h (initialize_simulation p g) ! r ! c'
        = (if border 11 (HEIGHT g) r c' then flit 0 else tilt_height p 11 c')"
      if "c' < 11" for c'
      using initialize_simulation_cells(3) [OF assms(1,2), of c' p] that nd W
      by (simp add: init_h_def)
    have w0: "h (initialize_simulation p g) ! r ! 0 = flit 0"
      using col [of 0] by (simp add: border_def)
    have w10: "h (initialize_simulation p g) ! r ! 10 = flit 0"
      using col [of 10] by (simp add: border_def)
    have i: "h (initialize_simulation p g) ! r ! 1 = flit (42 / 100)
        \<and> h (initialize_simulation p g) ! r ! 9 = flit (58 / 100)"
      if "0 < r \<and> r < HEIGHT g - 1"
      using col [of 1] col [of 9] that tilted_columns(3,4) [OF q] by (simp add: border_def)
    from tilted_columns(1,2) [OF q] w0 w10 i show ?thesis
      by blast
  qed
  from a b f d s show ?thesis
    by (simp add: tilt_height_spec)
qed

theorem tilt_initialisation_witness:
  "wf_grid (allocate_grids 11 5) \<and> (2::nat) < HEIGHT (allocate_grids 11 5)
   \<and> (3::nat) < WIDTH (allocate_grids 11 5) \<and> (0::nat) < WIDTH (allocate_grids 11 5)
   \<and> (0::nat) < 2 \<and> (2::nat) < HEIGHT (allocate_grids 11 5) - 1
   \<and> (0::nat) < 3 \<and> (3::nat) < WIDTH (allocate_grids 11 5) - 1
   \<and> \<not> flt (fabsf (G_INITIAL_TILT default_params)) (flit (1 / 1000))
   \<and> WIDTH (allocate_grids 11 5) = 11 \<and> G_INITIAL_TILT default_params = flit (1 / 10)
   \<and> G_INITIAL_WATER_LEVEL default_params = flit (5 / 10)
   \<and> vel (initialize_simulation default_params (allocate_grids 11 5)) ! 2 ! 3 = flit 0
   \<and> h (initialize_simulation default_params (allocate_grids 11 5)) ! 2 ! 3
       = clamp01 (fadd (flit (5 / 10))
           (fmul (fmul (flit (1 / 10))
                    (fsub (fdiv (float_of_int 3) (fsub (float_of_int 11) (flit 1))) (flit (5 / 10))))
                 (flit 2)))
   \<and> h (initialize_simulation default_params (allocate_grids 11 5)) ! 2 ! 0 = flit 0
   \<and> h (initialize_simulation default_params (allocate_grids 11 5)) ! 2 ! 1 = flit (42 / 100)
   \<and> h (initialize_simulation default_params (allocate_grids 11 5)) ! 2 ! 9 = flit (58 / 100)
   \<and> h (initialize_simulation default_params (allocate_grids 11 5)) ! 2 ! 10 = flit 0
   \<and> vel (initialize_simulation default_params (allocate_grids 11 5)) ! 2 ! 0 = flit 0
   \<and> wf_grid (allocate_grids 21 11) \<and> (5::nat) < HEIGHT (allocate_grids 21 11)
   \<and> (10::nat) < WIDTH (allocate_grids 21 11)
   \<and> flt (fabsf (G_INITIAL_TILT (default_params\<lparr>G_INITIAL_TILT := flit 0\<rparr>))) (flit (1 / 1000))
   \<and> (2::nat) < HEIGHT (allocate_grids 21 11) \<and> (2::nat) < WIDTH (allocate_grids 21 11)
   \<and> (5::nat) = HEIGHT (allocate_grids 21 11) div 2 \<and> (10::nat) = WIDTH (allocate_grids 21 11) div 2
   \<and> h (initialize_simulation (default_params\<lparr>G_INITIAL_TILT := flit 0\<rparr>) (allocate_grids 21 11)) ! 5 ! 10
       = fminf (flit 1) (fadd (flit (5 / 10)) (flit (4 / 10)))
   \<and> vel (initialize_simulation (default_params\<lparr>G_INITIAL_TILT := flit 0\<rparr>) (allocate_grids 21 11)) ! 5 ! 10
       = flit 0"
proof -
  let ?g = "allocate_grids 11 5"
  let ?G = "allocate_grids 21 11"
  let ?p = "default_params\<lparr>G_INITIAL_TILT := flit 0\<rparr>"
  have w: "wf_grid ?g" "wf_grid ?G" by (rule wf_grid_allocate)+
  have d: "(2::nat) < HEIGHT ?g" "(3::nat) < WIDTH ?g" "(0::nat) < WIDTH ?g"
    and i: "(0::nat) < 2" "(2::nat) < HEIGHT ?g - 1" "(0::nat) < 3" "(3::nat) < WIDTH ?g - 1"
    and D: "(5::nat) < HEIGHT ?G" "(10::nat) < WIDTH ?G"
    and C: "(2::nat) < HEIGHT ?G" "(2::nat) < WIDTH ?G"
      "(5::nat) = HEIGHT ?G div 2" "(10::nat) = WIDTH ?G div 2"
    by (simp_all add: allocate_grids_def)
  have t: "\<not> flt (fabsf (G_INITIAL_TILT default_params)) (flit (1 / 1000))"
    by (simp add: default_params_def float_eval)
  have T: "flt (fabsf (G_INITIAL_TILT ?p)) (flit (1 / 1000))"
    by (simp add: float_eval)
  have q: "WIDTH ?g = 11" "G_INITIAL_TILT default_params = flit (1 / 10)"
    "G_INITIAL_WATER_LEVEL default_params = flit (5 / 10)"
    by (simp_all add: allocate_grids_def default_params_def)
  note k = tilt_initialisation [OF w(1) d(1,2), of default_params]
  note k0 = tilt_initialisation [OF w(1) d(1,3), of default_params]
  note K = tilt_initialisation [OF w(2) D, of ?p]
  have v: "vel (initialize_simulation default_params ?g) ! 2 ! 3 = flit 0"
    using k by (rule conjunct1)
  have v0: "vel (initialize_simulation default_params ?g) ! 2 ! 0 = flit 0"
    using k0 by (rule conjunct1)
  have h0: "h (initialize_simulation default_params ?g) ! 2 ! 0 = flit 0"
    using k0 [THEN conjunct2, THEN conjunct1] by simp
  have f: "h (initialize_simulation default_params ?g) ! 2 ! 3
       = clamp01 (fadd (flit (5 / 10))
           (fmul (fmul (flit (1 / 10))
                    (fsub (fdiv (float_of_int 3) (fsub (float_of_int 11) (flit 1))) (flit (5 / 10))))
                 (flit 2)))"
    using k [THEN conjunct2, THEN conjunct2, THEN conjunct1] i t q by simp
  have sc: "h (initialize_simulation default_params ?g) ! 2 ! 10 = flit 0
      \<and> h (initialize_simulation default_params ?g) ! 2 ! 1 = flit (42 / 100)
      \<and> h (initialize_simulation default_params ?g) ! 2 ! 9 = flit (58 / 100)"
    using k [THEN conjunct2, THEN conjunct2, THEN conjunct2, THEN conjunct2] q i by blast
  have b: "h (initialize_simulation ?p ?G) ! 5 ! 10
       = fminf (flit 1) (fadd (flit (5 / 10)) (flit (4 / 10)))"
    using K [THEN conjunct2, THEN conjunct2, THEN conjunct2, THEN conjunct1] T C
    by (simp add: default_params_def)
  have V: "vel (initialize_simulation ?p ?G) ! 5 ! 10 = flit 0"
    using K by (rule conjunct1)
  show ?thesis
    by (intro conjI) (rule w d i t q v f h0 v0 sc [THEN conjunct1] sc [THEN conjunct2, THEN conjunct1]
        sc [THEN conjunct2, THEN conjunct2] D T C b V)+
qed

text \<open>
  With tilt 0 and level 0.5 on the domain 21 wide and 11 high, the interior cell
  \<open>(5, 10)\<close> holds \<^verbatim>\<open>0.9f\<close> where the formula gives \<^verbatim>\<open>0.5f\<close>; and with the default tilt
  \<^verbatim>\<open>0.1f\<close> in a domain 11 wide, columns 1 and 9 hold \<^verbatim>\<open>0.42f\<close> and \<^verbatim>\<open>0.58f\<close>, more than
  0.01 away from 0.4 and 0.6.
\<close>

theorem tilt_formula_exceptions:
  "h (initialize_simulation (default_params\<lparr>G_INITIAL_TILT := flit 0\<rparr>) (allocate_grids 21 11)) ! 5 ! 10
     = flit (9 / 10)
   \<and> clamp01 (fadd (flit (5 / 10))
        (fmul (fmul (flit 0) (fsub (fdiv (float_of_int 10) (fsub (float_of_int 21) (flit 1)))
                                    (flit (5 / 10))))
              (flit 2))) = flit (5 / 10)
   \<and> flit (9 / 10) \<noteq> flit (5 / 10)
   \<and> h (initialize_simulation default_params (allocate_grids 11 5)) ! 1 ! 1 = flit (42 / 100)
   \<and> h (initialize_simulation default_params (allocate_grids 11 5)) ! 1 ! 9 = flit (58 / 100)
   \<and> 41 / 100 < valof (flit (42 / 100)) \<and> valof (flit (58 / 100)) < 59 / 100"
proof -
  let ?p = "default_params\<lparr>G_INITIAL_TILT := flit 0\<rparr>"
  have w: "wf_grid (allocate_grids 21 11)" "wf_grid (allocate_grids 11 5)"
    by (rule wf_grid_allocate)+
  have "disturbed ?p 21 11"
    by (simp add: disturbed_def float_eval)
  moreover have "bump ?p = flit (9 / 10)"
    by (simp add: bump_def default_params_def float_eval fminf_def fgt_def)
  ultimately have a: "h (initialize_simulation ?p (allocate_grids 21 11)) ! 5 ! 10 = flit (9 / 10)"
    using initialize_simulation_cells(3) [OF w(1), of 5 10 ?p] by (simp add: allocate_grids_def)
  have b: "clamp01 (fadd (flit (5 / 10))
        (fmul (fmul (flit 0) (fsub (fdiv (float_of_int 10) (fsub (float_of_int 21) (flit 1)))
                                    (flit (5 / 10))))
              (flit 2))) = flit (5 / 10)"
    by (simp add: clamp01_def float_eval fmaxf_def fminf_def fge_def fgt_def)
  have c: "flit (9 / 10) \<noteq> flit (5 / 10)"
    by (simp add: float_eval)
  have nd: "\<not> disturbed default_params 11 5"
    by (simp add: disturbed_def default_params_def float_eval)
  have q: "G_INITIAL_TILT default_params = flit (1 / 10)"
    "G_INITIAL_WATER_LEVEL default_params = flit (1 / 2)"
    by (simp_all add: default_params_def)
  have d: "h (initialize_simulation default_params (allocate_grids 11 5)) ! 1 ! 1 = flit (42 / 100)"
    using initialize_simulation_cells(3) [OF w(2), of 1 1 default_params] nd tilted_columns(3) [OF q]
    by (simp add: allocate_grids_def init_h_def border_def)
  have e: "h (initialize_simulation default_params (allocate_grids 11 5)) ! 1 ! 9 = flit (58 / 100)"
    using initialize_simulation_cells(3) [OF w(2), of 1 9 default_params] nd tilted_columns(4) [OF q]
    by (simp add: allocate_grids_def init_h_def border_def)
  have f: "41 / 100 < valof (flit (42 / 100))" "valof (flit (58 / 100)) < 59 / 100"
    by (simp_all add: float_eval)
  show ?thesis
    by (intro conjI) (rule a b c d e f)+
qed

section \<open>Rounding\<close>

text \<open>
  Powers of two, the position of the leading bit, and rounding to the nearest integer; then
  the value \<^verbatim>\<open>round_float\<close> returns for an integer multiple of a power of two. They give
  the sum of four equal heights, which the step compares with four times the height.
\<close>

subsection \<open>Powers of two and the leading bit\<close>

lemma pow2_powi: "pow2 e = 2 powi e"
  by (simp add: pow2_def power_int_def inverse_eq_divide power_one_over)


lemma pow2_0 [simp]: "pow2 0 = 1"
  by (simp add: pow2_def)

lemma pow2_mono: "a \<le> b \<Longrightarrow> pow2 a \<le> pow2 b"
  by (simp add: pow2_powi power_int_increasing)

lemma pow2_strict_mono: "a < b \<Longrightarrow> pow2 a < pow2 b"
  by (simp add: pow2_powi power_int_strict_increasing)

lemma pow2_le_iff: "pow2 a \<le> pow2 b \<longleftrightarrow> a \<le> b"
  by (metis pow2_mono pow2_strict_mono not_le)

lemma pow2_less_iff: "pow2 a < pow2 b \<longleftrightarrow> a < b"
  by (metis pow2_mono pow2_strict_mono not_le)


lemma pow2_diff: "pow2 (a - b) = pow2 a / pow2 b"
  by (simp add: pow2_powi power_int_diff)

lemma pow2_plus1: "pow2 (k + 1) = 2 * pow2 k"
  by (simp add: pow2_powi power_int_add)

lemma pow2_minus1: "pow2 (k - 1) = pow2 k / 2"
  using pow2_plus1 [of "k - 1"] by simp

lemma ilog2_bounds:
  "0 < a \<Longrightarrow> pow2 (ilog2 a) \<le> a \<and> a < pow2 (ilog2 a + 1)"
proof (induction a rule: ilog2.induct)
  case (1 a)
  show ?case
  proof (cases "2 \<le> a")
    case True
    with "1.prems" "1.IH"(1) have IH: "pow2 (ilog2 (a / 2)) \<le> a / 2" "a / 2 < pow2 (ilog2 (a / 2) + 1)"
      by simp_all
    have eq: "ilog2 a = ilog2 (a / 2) + 1"
      using True by (subst ilog2.simps) simp
    have "pow2 (ilog2 (a / 2) + 1) \<le> a"
      unfolding pow2_plus1 using IH(1) by linarith
    moreover have "a < pow2 (ilog2 (a / 2) + 1 + 1)"
      unfolding pow2_plus1 [of "ilog2 (a / 2) + 1"] using IH(2) by linarith
    ultimately show ?thesis
      unfolding eq by simp
  next
    case False
    show ?thesis
    proof (cases "a < 1")
      case True
      with "1.prems" "1.IH"(2) False
      have IH: "pow2 (ilog2 (a * 2)) \<le> a * 2" "a * 2 < pow2 (ilog2 (a * 2) + 1)"
        by simp_all
      have eq: "ilog2 a = ilog2 (a * 2) - 1"
        using True "1.prems" by (subst ilog2.simps) simp
      have "pow2 (ilog2 (a * 2) - 1) \<le> a"
        unfolding pow2_minus1 using IH(1) by linarith
      moreover have "a < pow2 (ilog2 (a * 2))"
        using IH(2) unfolding pow2_plus1 by linarith
      ultimately show ?thesis
        unfolding eq by simp
    next
      case F: False
      with False have "ilog2 a = 0"
        by (subst ilog2.simps) simp
      with False F show ?thesis
        by (simp add: pow2_def)
    qed
  qed
qed



subsection \<open>The nearest integer, ties to even\<close>

lemma rne_of_int [simp]: "rne (of_int n) = n"
  by (simp add: rne_def)

lemma rne_numeral_mult [simp]: "rne (numeral k * of_int n) = numeral k * n"
  by (metis of_int_mult of_int_numeral rne_of_int)






subsection \<open>The value of \<^verbatim>\<open>round_float\<close>\<close>


lemma ilog2_ge: "pow2 k \<le> x \<Longrightarrow> k \<le> ilog2 x"
proof -
  assume a: "pow2 k \<le> x"
  then have "0 < x" using pow2_pos [of k] by linarith
  from ilog2_bounds [OF this] a have "pow2 k < pow2 (ilog2 x + 1)" by linarith
  then show ?thesis by (simp add: pow2_less_iff)
qed








subsection \<open>Halves and quarters of integers\<close>


lemma pow2_nonneg [simp]: "0 \<le> pow2 e"
  using pow2_pos [of e] by linarith

lemma pow2_nonzero [simp]: "pow2 e \<noteq> 0"
  using pow2_pos [of e] by linarith



lemma int_abs_real_eq: "\<bar>(of_int a :: real)\<bar> = of_int b \<longleftrightarrow> \<bar>a\<bar> = b"
  by (metis of_int_abs of_int_eq_iff)



lemma rne_quarter_tie: "\<bar>4 * rne (of_int K / 4) - K\<bar> = 2 \<Longrightarrow> even K"
  by presburger












subsection \<open>Integer multiples of a power of two\<close>









subsection \<open>Exact results\<close>





lemma is_zero_finite: "is_zero a \<Longrightarrow> finite_float a"
  by (cases a) simp_all



section \<open>Water at rest\<close>












end
